theory Spec2Isabelle
  imports Complex_Main
begin

section \<open>Data model of the ant colony simulation\<close>

text \<open>
  The embedding follows \<^verbatim>\<open>agents.py\<close> and \<^verbatim>\<open>model.py\<close>. Python floats are
  idealised as \<^typ>\<open>real\<close>: every arithmetic operation of the source is the same operation on
  reals, without rounding. Python integers are \<^typ>\<open>int\<close>; agent identifiers are
  \<^typ>\<open>nat\<close>. The two pheromone type strings \<^verbatim>\<open>"to_nest"\<close> and \<^verbatim>\<open>"to_food"\<close> (the only
  ones the source ever passes) are the two constructors of a datatype.
\<close>

type_synonym pos = "int \<times> int"

datatype ptype = to_nest | to_food

datatype py_error = IndexError | TypeError | ValueError | ZeroDivisionError

record pheromone_agent =
  ph_unique_id :: nat
  ph_pos :: pos
  strength :: real
  pheromone_type :: ptype

record food_agent =
  food_unique_id :: nat
  food_pos :: pos
  amount :: int

record ant_agent =
  unique_id :: nat
  pos :: pos
  home_pos :: pos
  carrying_food :: bool
  direction :: nat
  last_direction :: "(int \<times> int) option"
  last_food_pos :: "pos option"
  returning_to_food :: bool
  following_pheromones :: bool
  just_dropped_food :: bool
  exploration_cooldown :: int

text \<open>
  The model object. The grid (a Mesa \<^verbatim>\<open>MultiGrid\<close>, torus) and the schedule hold the same
  agents; each kind of agent is kept as a list in creation order, which is also the order in
  which a cell lists its agents of that kind (pheromones and food never move). The engine's
  generator \<^verbatim>\<open>model.random\<close> is the sequence of its raw draws, fixed by the seed, and a cursor
  into it.
\<close>

record model =
  width :: int
  height :: int
  n_ants :: int
  simulation_speed :: int
  to_nest_lifespan :: real
  to_food_lifespan :: real
  steps_per_second :: int
  to_nest_evaporation :: real
  to_food_evaporation :: real
  food_delivered :: int
  total_food :: int
  step_count :: int
  active_pheromones :: int
  active_to_nest_pheromones :: int
  active_to_food_pheromones :: int
  next_id_value :: nat
  nest_pos :: pos
  nest_unique_id :: nat
  ants :: "ant_agent list"
  foods :: "food_agent list"
  pheromones :: "pheromone_agent list"
  rng :: "nat \<Rightarrow> nat"
  rng_ix :: nat

definition next_id :: "model \<Rightarrow> nat \<times> model" where
  "next_id m = (next_id_value m + 1, m\<lparr>next_id_value := next_id_value m + 1\<rparr>)"

subsection \<open>Grid\<close>

text \<open>
  \<^verbatim>\<open>MultiGrid.get_neighborhood(pos, moore=True, include_center=False, radius)\<close> on a torus,
  as Mesa computes it: the radius is clamped to half the dimension (one less on the upper side
  when the dimension is even and the clamp applies), offsets are enumerated with \<open>dx\<close> outermost,
  every coordinate is wrapped, and the centre is dropped.
\<close>

definition get_neighborhood :: "model \<Rightarrow> pos \<Rightarrow> int \<Rightarrow> pos list" where
  "get_neighborhood m p radius =
     (let x = fst p; y = snd p;
          x_max_radius = width m div 2; y_max_radius = height m div 2;
          x_radius = min radius x_max_radius; y_radius = min radius y_max_radius;
          kx = (if x_radius = x_max_radius \<and> (width m + 1) mod 2 \<noteq> 0 then 1 else 0);
          ky = (if y_radius = y_max_radius \<and> (height m + 1) mod 2 \<noteq> 0 then 1 else 0);
          coordinates = concat (map (\<lambda>dx. map (\<lambda>dy. ((x + dx) mod width m, (y + dy) mod height m))
                                     [- y_radius .. y_radius - ky])
                                [- x_radius .. x_radius - kx])
      in filter (\<lambda>c. c \<noteq> p) coordinates)"

text \<open>The Euclidean distance \<^verbatim>\<open>((x - nx) ** 2 + (y - ny) ** 2) ** 0.5\<close> of the source.\<close>

definition euclid :: "pos \<Rightarrow> pos \<Rightarrow> real" where
  "euclid p q = sqrt (real_of_int ((fst p - fst q)\<^sup>2 + (snd p - snd q)\<^sup>2))"

subsection \<open>Pheromone field\<close>

text \<open>
  The loop of \<^verbatim>\<open>_add_or_reinforce_pheromone\<close> over the cell contents: the first pheromone of
  the requested type in the cell is reinforced; \<open>None\<close> when the loop finds none.
\<close>

fun reinforce_first :: "pos \<Rightarrow> real \<Rightarrow> ptype \<Rightarrow> pheromone_agent list \<Rightarrow> pheromone_agent list option" where
  "reinforce_first p v t [] = None"
| "reinforce_first p v t (a # as) =
     (if ph_pos a = p \<and> pheromone_type a = t
      then Some (a\<lparr>strength := min 3 (strength a + v * 0.5)\<rparr> # as)
      else map_option ((#) a) (reinforce_first p v t as))"

definition add_or_reinforce_pheromone :: "model \<Rightarrow> pos \<Rightarrow> real \<Rightarrow> ptype \<Rightarrow> model" where
  "add_or_reinforce_pheromone m p v t =
     (case reinforce_first p v t (pheromones m) of
        Some ps \<Rightarrow> m\<lparr>pheromones := ps\<rparr>
      | None \<Rightarrow>
          if v \<ge> 0.2 then
            (let (uid, m1) = next_id m;
                 pheromone = \<lparr>ph_unique_id = uid, ph_pos = p, strength = v, pheromone_type = t\<rparr>
             in m1\<lparr>pheromones := pheromones m1 @ [pheromone],
                   active_pheromones := active_pheromones m1 + 1\<rparr>)
          else m)"

definition create_pheromone :: "model \<Rightarrow> pos \<Rightarrow> real \<Rightarrow> ptype \<Rightarrow> model" where
  "create_pheromone m p strength0 t =
     (let dist_to_nest = euclid p (nest_pos m);
          scaled = (if dist_to_nest < 10 then strength0 * (dist_to_nest / 10) else strength0)
      in if dist_to_nest < 10 \<and> dist_to_nest < 3 then m
         else fold (\<lambda>neighbor_pos acc. add_or_reinforce_pheromone acc neighbor_pos (scaled * 0.3) t)
                   (get_neighborhood m p 1)
                   (add_or_reinforce_pheromone m p scaled t))"

text \<open>
  \<^verbatim>\<open>PheromoneAgent.step\<close> for the pheromone with identifier \<open>uid\<close>: multiply the strength by
  the evaporation rate of its type, then remove the agent from grid and schedule when the
  new strength is below 0.05.
\<close>

definition evaporation_of :: "model \<Rightarrow> ptype \<Rightarrow> real" where
  "evaporation_of m t = (case t of to_nest \<Rightarrow> to_nest_evaporation m | to_food \<Rightarrow> to_food_evaporation m)"

definition decayed :: "model \<Rightarrow> pheromone_agent \<Rightarrow> pheromone_agent" where
  "decayed m a = a\<lparr>strength := strength a * evaporation_of m (pheromone_type a)\<rparr>"

definition pheromone_step :: "model \<Rightarrow> nat \<Rightarrow> model" where
  "pheromone_step m uid =
     m\<lparr>pheromones :=
         filter (\<lambda>a. \<not> (ph_unique_id a = uid \<and> strength a < 0.05))
           (map (\<lambda>a. if ph_unique_id a = uid then decayed m a else a) (pheromones m))\<rparr>"

text \<open>
  \<^verbatim>\<open>_lifespan_to_evaporation\<close>. The true division raises \<^verbatim>\<open>ZeroDivisionError\<close> when the
  speed multiplier is 0.
\<close>

definition lifespan_to_evaporation :: "model \<Rightarrow> real \<Rightarrow> py_error + real" where
  "lifespan_to_evaporation m lifespan_seconds =
     (if simulation_speed m = 0 then Inl ZeroDivisionError
      else
        let total_steps = lifespan_seconds * real_of_int (steps_per_second m) / real_of_int (simulation_speed m)
        in if total_steps \<le> 0 then Inr 0
           else Inr (max 0.01 (min 0.999 (0.05 powr (1 / total_steps)))))"

subsection \<open>The engine's random generator\<close>

text \<open>
  Each primitive of \<^verbatim>\<open>model.random\<close> consumes one raw draw. \<^verbatim>\<open>random()\<close> is a multiple of
  \<open>2\<^sup>-\<^sup>5\<^sup>3\<close> in \<open>[0, 1)\<close>; \<^verbatim>\<open>choice\<close> raises \<^verbatim>\<open>IndexError\<close> on an empty sequence;
  \<^verbatim>\<open>randrange\<close> and \<^verbatim>\<open>randint\<close> raise \<^verbatim>\<open>ValueError\<close> on an empty range.
\<close>

definition draw :: "model \<Rightarrow> nat \<times> model" where
  "draw m = (rng m (rng_ix m), m\<lparr>rng_ix := rng_ix m + 1\<rparr>)"

definition random_random :: "model \<Rightarrow> real \<times> model" where
  "random_random m = (let (d, m1) = draw m in (real (d mod 2 ^ 53) / 2 ^ 53, m1))"

definition random_choice :: "model \<Rightarrow> 'a list \<Rightarrow> py_error + ('a \<times> model)" where
  "random_choice m xs =
     (if xs = [] then Inl IndexError
      else let (d, m1) = draw m in Inr (xs ! (d mod length xs), m1))"

definition random_randrange :: "model \<Rightarrow> int \<Rightarrow> py_error + (int \<times> model)" where
  "random_randrange m n =
     (if n \<le> 0 then Inl ValueError
      else let (d, m1) = draw m in Inr (int (d mod nat n), m1))"

definition random_randint :: "model \<Rightarrow> int \<Rightarrow> int \<Rightarrow> py_error + (int \<times> model)" where
  "random_randint m a b =
     (if b < a then Inl ValueError
      else let (d, m1) = draw m in Inr (a + int (d mod nat (b - a + 1)), m1))"

text \<open>\<^verbatim>\<open>random.shuffle\<close>: \<^verbatim>\<open>for i in reversed(range(1, len(x))): j = randbelow(i + 1); swap\<close>.\<close>

fun shuffle_loop :: "nat \<Rightarrow> model \<Rightarrow> 'a list \<Rightarrow> 'a list \<times> model" where
  "shuffle_loop 0 m xs = (xs, m)"
| "shuffle_loop (Suc k) m xs =
     (let (d, m1) = draw m; j = d mod (Suc k + 1)
      in shuffle_loop k m1 (xs[Suc k := xs ! j, j := xs ! Suc k]))"

definition shuffle :: "model \<Rightarrow> 'a list \<Rightarrow> 'a list \<times> model" where
  "shuffle m xs = shuffle_loop (length xs - 1) m xs"

subsection \<open>Ant policy\<close>

text \<open>
  \<^verbatim>\<open>float('inf')\<close> as the initial value of a running minimum: a float is finite or
  \<open>+\<infinity>\<close>, and no finite float is greater than \<open>+\<infinity>\<close>.
\<close>

datatype pyfloat = Finite real | Infinity

fun float_less :: "real \<Rightarrow> pyfloat \<Rightarrow> bool" where
  "float_less d (Finite e) = (d < e)"
| "float_less d Infinity = True"

fun float_greater :: "real \<Rightarrow> pyfloat \<Rightarrow> bool" where
  "float_greater d (Finite e) = (d > e)"
| "float_greater d Infinity = False"

text \<open>
  \<^verbatim>\<open>move_towards\<close>: the first neighbour at minimal distance from the target; \<open>None\<close>
  is Python's \<^verbatim>\<open>None\<close> for an empty neighbourhood.
\<close>

definition move_towards :: "model \<Rightarrow> pos \<Rightarrow> pos \<Rightarrow> pos option" where
  "move_towards m current target =
     snd (fold (\<lambda>p (min_dist, best_pos).
                  let dist = euclid p target
                  in if float_less dist min_dist then (Finite dist, Some p) else (min_dist, best_pos))
               (get_neighborhood m current 1) (Infinity, None))"

text \<open>
  \<^verbatim>\<open>move_away_from_nest\<close>. The source first computes \<^verbatim>\<open>target_x\<close> and \<^verbatim>\<open>target_y\<close>,
  which it never reads; they are left out. The loop keeps \<^verbatim>\<open>best_pos\<close> and
  \<^verbatim>\<open>min_dist_to_nest\<close>, which starts at \<^verbatim>\<open>float('inf')\<close>.
\<close>

definition away_loop :: "ant_agent \<Rightarrow> pos list \<Rightarrow> pos option \<times> pyfloat" where
  "away_loop a possible_steps =
     fold (\<lambda>p (best_pos, min_dist_to_nest).
             let dist_to_nest = euclid p (home_pos a)
             in if float_greater dist_to_nest min_dist_to_nest then (Some p, Finite dist_to_nest)
                else (best_pos, min_dist_to_nest))
          possible_steps (None, Infinity)"

definition move_away_from_nest :: "model \<Rightarrow> ant_agent \<Rightarrow> pos list \<Rightarrow> py_error + (pos \<times> model)" where
  "move_away_from_nest m a possible_steps =
     (case fst (away_loop a possible_steps) of
        Some best_pos \<Rightarrow> Inr (best_pos, m)
      | None \<Rightarrow> random_choice m possible_steps)"

definition random_walk :: "model \<Rightarrow> ant_agent \<Rightarrow> pos list \<Rightarrow> py_error + (pos \<times> model)" where
  "random_walk m a possible_steps =
     (case last_direction a of
        None \<Rightarrow> random_choice m possible_steps
      | Some (dx, dy) \<Rightarrow>
          let (r, m1) = random_random m
          in if r < 0.3 \<and> (fst (pos a) + dx, snd (pos a) + dy) \<in> set possible_steps
             then Inr ((fst (pos a) + dx, snd (pos a) + dy), m1)
             else random_choice m1 possible_steps)"

text \<open>\<^verbatim>\<open>numpy.arctan2(y, x)\<close> on reals.\<close>

definition arctan2 :: "real \<Rightarrow> real \<Rightarrow> real" where
  "arctan2 y x =
     (if x > 0 then arctan (y / x)
      else if x < 0 \<and> y \<ge> 0 then arctan (y / x) + pi
      else if x < 0 then arctan (y / x) - pi
      else if y > 0 then pi / 2
      else if y < 0 then - pi / 2
      else 0)"

definition cell_pheromone_strength :: "model \<Rightarrow> pos \<Rightarrow> real" where
  "cell_pheromone_strength m p =
     sum_list (map (\<lambda>a. strength a * 1.5)
                 (filter (\<lambda>a. ph_pos a = p \<and> pheromone_type a = to_food) (pheromones m)))"

definition scan_cell ::
  "model \<Rightarrow> pos \<Rightarrow> pos \<Rightarrow> ((int \<times> int) \<rightharpoonup> real) \<times> real \<times> (int \<times> int) option
     \<Rightarrow> ((int \<times> int) \<rightharpoonup> real) \<times> real \<times> (int \<times> int) option" where
  "scan_cell m current p st =
     (let (pheromone_directions, max_pheromone, best_direction) = st;
          pheromone_strength = cell_pheromone_strength m p
      in if pheromone_strength > 0.1 then
           let direction = (fst p - fst current, snd p - snd current);
               v = (case pheromone_directions direction of
                      Some old \<Rightarrow> old + pheromone_strength | None \<Rightarrow> pheromone_strength);
               dirs = pheromone_directions(direction \<mapsto> v)
           in if v > max_pheromone then (dirs, v, Some direction)
              else (dirs, max_pheromone, best_direction)
         else st)"

definition closest_step :: "pos \<Rightarrow> int \<times> int \<Rightarrow> pos list \<Rightarrow> pos option" where
  "closest_step current d possible_steps =
     snd (fold (\<lambda>step (min_angle_diff, best_step).
                  let step_dx = fst step - fst current; step_dy = snd step - snd current;
                      target_angle = arctan2 (real_of_int (snd d)) (real_of_int (fst d));
                      step_angle = arctan2 (real_of_int step_dy) (real_of_int step_dx);
                      angle_diff0 = \<bar>target_angle - step_angle\<bar>;
                      angle_diff = min angle_diff0 (2 * pi - angle_diff0)
                  in if float_less angle_diff min_angle_diff then (Finite angle_diff, Some step)
                     else (min_angle_diff, best_step))
               possible_steps (Infinity, None))"

definition follow_pheromones_or_explore ::
  "model \<Rightarrow> ant_agent \<Rightarrow> pos \<Rightarrow> pos list \<Rightarrow> py_error + ((pos \<times> bool) \<times> model)" where
  "follow_pheromones_or_explore m a current possible_steps =
     (let (pheromone_directions, max_pheromone, best_direction) =
            fold (scan_cell m current) (get_neighborhood m current 2) (Map.empty, 0, None);
          walk = (\<lambda>m'. case random_walk m' a possible_steps of
                          Inl e \<Rightarrow> Inl e | Inr (p, m'') \<Rightarrow> Inr ((p, False), m''))
      in case best_direction of
           None \<Rightarrow> walk m
         | Some (dx0, dy0) \<Rightarrow>
             let (r, m1) = random_random m
             in if r < min 0.95 (0.6 + max_pheromone * 0.3) then
                  let d = (if \<bar>dx0\<bar> > 1 \<or> \<bar>dy0\<bar> > 1 then (sgn dx0, sgn dy0) else (dx0, dy0));
                      target_pos = ((fst current + fst d) mod width m1, (snd current + snd d) mod height m1)
                  in if target_pos \<in> set possible_steps then Inr ((target_pos, True), m1)
                     else (case closest_step current d possible_steps of
                             Some best_step \<Rightarrow> Inr ((best_step, True), m1)
                           | None \<Rightarrow> walk m1)
                else walk m1)"

text \<open>
  The food scan of \<^verbatim>\<open>move\<close>: what one \<^verbatim>\<open>FoodAgent\<close> found in \<open>cell\<close> adds to
  \<^verbatim>\<open>food_cells\<close>, and the two nested loops over the radius-2 neighbourhood.
\<close>

definition food_found :: "pos \<Rightarrow> pos list \<Rightarrow> pos \<Rightarrow> pos list \<Rightarrow> pos list" where
  "food_found current possible_steps cell food_cells =
     (if cell \<in> set possible_steps then food_cells @ [cell]
      else if food_cells = [] then
        food_cells @ filter (\<lambda>step. (fst step - fst current) * (fst cell - fst current) \<ge> 0 \<and>
                                   (snd step - snd current) * (snd cell - snd current) \<ge> 0) possible_steps
      else food_cells)"

definition scan_food :: "model \<Rightarrow> pos \<Rightarrow> pos list \<Rightarrow> pos list" where
  "scan_food m current possible_steps =
     fold (\<lambda>cell food_cells.
             fold (\<lambda>agent. food_found current possible_steps cell)
                  (filter (\<lambda>f. food_pos f = cell) (foods m)) food_cells)
          (get_neighborhood m current 2) []"

text \<open>
  The end of \<^verbatim>\<open>move\<close>: record the direction and \<^verbatim>\<open>grid.move_agent\<close>, which wraps the
  position. A \<^verbatim>\<open>None\<close> position raises \<^verbatim>\<open>TypeError\<close>.
\<close>

definition finish_move :: "model \<Rightarrow> ant_agent \<Rightarrow> pos \<Rightarrow> pos option \<Rightarrow> py_error + (model \<times> ant_agent)" where
  "finish_move m a current next_pos_opt =
     (case next_pos_opt of
        None \<Rightarrow> Inl TypeError
      | Some next_pos \<Rightarrow>
          Inr (m, a\<lparr>last_direction :=
                       (case last_direction a of
                          Some d \<Rightarrow> Some (fst next_pos - fst current, snd next_pos - snd current)
                        | None \<Rightarrow> Some (0, 0)),
                     pos := (fst next_pos mod width m, snd next_pos mod height m)\<rparr>))"

text \<open>
  \<^verbatim>\<open>move\<close>, one definition for each branch of its \<^verbatim>\<open>if\<close>/\<^verbatim>\<open>elif\<close> chain and the chain
  itself. In every branch \<open>current_pos\<close> is \<^verbatim>\<open>self.pos\<close> and \<open>possible_steps\<close> is the radius-1
  neighbourhood of it.
\<close>

definition escape_move :: "model \<Rightarrow> ant_agent \<Rightarrow> py_error + (model \<times> ant_agent)" where
  "escape_move m a =
     (let current_pos = pos a;
          possible_steps = get_neighborhood m current_pos 1
      in case move_away_from_nest m a possible_steps of
           Inl e \<Rightarrow> Inl e
         | Inr (next_pos, m1) \<Rightarrow>
             let a1 = a\<lparr>just_dropped_food := False,
                        exploration_cooldown := max 0 (exploration_cooldown a - 1),
                        following_pheromones := False\<rparr>;
                 m2 = (if returning_to_food a1 \<and> last_food_pos a1 \<noteq> None
                       then create_pheromone m1 current_pos 1.0 to_food else m1)
             in finish_move m2 a1 current_pos (Some next_pos))"

definition carry_move :: "model \<Rightarrow> ant_agent \<Rightarrow> py_error + (model \<times> ant_agent)" where
  "carry_move m a =
     (let current_pos = pos a;
          next_pos = move_towards m current_pos (home_pos a);
          dist_to_nest = euclid current_pos (home_pos a);
          m1 = (if dist_to_nest > 3 then create_pheromone m current_pos 1.5 to_nest else m)
      in finish_move m1 (a\<lparr>following_pheromones := False\<rparr>) current_pos next_pos)"

definition return_move :: "model \<Rightarrow> ant_agent \<Rightarrow> py_error + (model \<times> ant_agent)" where
  "return_move m a =
     (let current_pos = pos a;
          possible_steps = get_neighborhood m current_pos 1
      in if Some (pos a) = last_food_pos a then
           (case random_choice m possible_steps of
              Inl e \<Rightarrow> Inl e
            | Inr (next_pos, m1) \<Rightarrow>
                finish_move m1 (a\<lparr>returning_to_food := False, following_pheromones := False\<rparr>)
                  current_pos (Some next_pos))
         else
           (let next_pos = (case last_food_pos a of
                              Some target \<Rightarrow> move_towards m current_pos target | None \<Rightarrow> None);
                m1 = create_pheromone m current_pos 1.0 to_food
            in finish_move m1 (a\<lparr>following_pheromones := False\<rparr>) current_pos next_pos))"

definition near_nest_draw :: "model \<Rightarrow> ant_agent \<Rightarrow> bool \<times> model" where
  "near_nest_draw m a =
     (if euclid (pos a) (home_pos a) < 5
      then (let (r, m') = random_random m in (r < 0.8, m'))
      else (False, m))"

definition forage_move :: "model \<Rightarrow> ant_agent \<Rightarrow> py_error + (model \<times> ant_agent)" where
  "forage_move m a =
     (let current_pos = pos a;
          possible_steps = get_neighborhood m current_pos 1;
          food_cells = scan_food m current_pos possible_steps
      in if food_cells \<noteq> [] then
           (case random_choice m food_cells of
              Inl e \<Rightarrow> Inl e
            | Inr (next_pos, m1) \<Rightarrow>
                finish_move m1 (a\<lparr>following_pheromones := False\<rparr>) current_pos (Some next_pos))
         else
           (let (near, m1) = near_nest_draw m a
            in if near then
                 (case move_away_from_nest m1 a possible_steps of
                    Inl e \<Rightarrow> Inl e
                  | Inr (next_pos, m2) \<Rightarrow>
                      finish_move m2 (a\<lparr>following_pheromones := False\<rparr>) current_pos (Some next_pos))
               else
                 (case follow_pheromones_or_explore m1 a current_pos possible_steps of
                    Inl e \<Rightarrow> Inl e
                  | Inr ((next_pos, is_following), m2) \<Rightarrow>
                      finish_move m2 (a\<lparr>following_pheromones := is_following\<rparr>)
                        current_pos (Some next_pos))))"

definition move :: "model \<Rightarrow> ant_agent \<Rightarrow> py_error + (model \<times> ant_agent)" where
  "move m a =
     (if just_dropped_food a \<or> exploration_cooldown a > 0 then escape_move m a
      else if carrying_food a then carry_move m a
      else if returning_to_food a \<and> last_food_pos a \<noteq> None then return_move m a
      else forage_move m a)"

text \<open>
  \<^verbatim>\<open>pick_up_food\<close> and \<^verbatim>\<open>drop_food_at_nest\<close> return the Boolean of the source together
  with the updated model and ant.
\<close>

definition pick_up_food :: "model \<Rightarrow> ant_agent \<Rightarrow> bool \<times> model \<times> ant_agent" where
  "pick_up_food m a =
     (if \<not> carrying_food a then
        (case List.find (\<lambda>f. food_pos f = pos a) (foods m) of
           Some agent \<Rightarrow>
             (True, m\<lparr>foods := remove1 agent (foods m)\<rparr>,
              a\<lparr>carrying_food := True, last_food_pos := Some (pos a)\<rparr>)
         | None \<Rightarrow> (False, m, a))
      else (False, m, a))"

definition drop_food_at_nest :: "model \<Rightarrow> ant_agent \<Rightarrow> bool \<times> model \<times> ant_agent" where
  "drop_food_at_nest m a =
     (if carrying_food a then
        (let x = fst (pos a); y = snd (pos a);
             nest_x = fst (home_pos a); nest_y = snd (home_pos a)
         in if \<bar>x - nest_x\<bar> \<le> 1 \<and> \<bar>y - nest_y\<bar> \<le> 1 then
              (True, m\<lparr>food_delivered := food_delivered m + 1\<rparr>,
               a\<lparr>carrying_food := False, just_dropped_food := True,
                 returning_to_food := True, exploration_cooldown := 5\<rparr>)
            else (False, m, a))
      else (False, m, a))"

definition ant_step :: "model \<Rightarrow> ant_agent \<Rightarrow> py_error + (model \<times> ant_agent)" where
  "ant_step m a =
     (let (m1, a1) = (if \<not> carrying_food a then snd (pick_up_food m a) else (m, a))
      in case move m1 a1 of
           Inl e \<Rightarrow> Inl e
         | Inr (m2, a2) \<Rightarrow>
             Inr (if carrying_food a2 then snd (drop_food_at_nest m2 a2) else (m2, a2)))"

subsection \<open>Scheduler\<close>

text \<open>
  The schedule is Mesa's \<^verbatim>\<open>RandomActivation\<close>: \<^verbatim>\<open>schedule.step()\<close> takes the keys of all
  scheduled agents (nest, ants, food, pheromones, in insertion order), shuffles them with the
  model's generator and calls \<^verbatim>\<open>step()\<close> of each agent that is still scheduled when its turn
  comes. Agents added during the pass are not in the key list of that pass. The nest and
  food have an empty \<^verbatim>\<open>step\<close>.
\<close>

definition schedule_keys :: "model \<Rightarrow> nat list" where
  "schedule_keys m =
     nest_unique_id m # map unique_id (ants m) @ map food_unique_id (foods m)
       @ map ph_unique_id (pheromones m)"

datatype agent_kind = AntKind | PheromoneKind | IdleKind

definition kind_of :: "model \<Rightarrow> nat \<Rightarrow> agent_kind" where
  "kind_of m uid =
     (if uid \<in> unique_id ` set (ants m) then AntKind
      else if uid \<in> ph_unique_id ` set (pheromones m) then PheromoneKind
      else IdleKind)"

definition agent_step :: "model \<Rightarrow> nat \<Rightarrow> py_error + model" where
  "agent_step m uid =
     (case List.find (\<lambda>a. unique_id a = uid) (ants m) of
        Some a \<Rightarrow>
          (case ant_step m a of
             Inl e \<Rightarrow> Inl e
           | Inr (m', a') \<Rightarrow>
               Inr (m'\<lparr>ants := map (\<lambda>b. if unique_id b = uid then a' else b) (ants m')\<rparr>))
      | None \<Rightarrow>
          if uid \<in> ph_unique_id ` set (pheromones m) then Inr (pheromone_step m uid) else Inr m)"

fun activate_all :: "model \<Rightarrow> nat list \<Rightarrow> py_error + model" where
  "activate_all m [] = Inr m"
| "activate_all m (k # ks) =
     (case agent_step m k of Inl e \<Rightarrow> Inl e | Inr m' \<Rightarrow> activate_all m' ks)"

text \<open>
  The record of one pass: which \<^verbatim>\<open>step\<close> method ran for each key, in the order of
  the pass (up to the first exception).
\<close>

fun activation_log :: "model \<Rightarrow> nat list \<Rightarrow> (nat \<times> agent_kind) list" where
  "activation_log m [] = []"
| "activation_log m (k # ks) =
     (k, kind_of m k) #
       (case agent_step m k of Inl e \<Rightarrow> [] | Inr m' \<Rightarrow> activation_log m' ks)"

definition schedule_step :: "model \<Rightarrow> py_error + model" where
  "schedule_step m = (let (keys, m1) = shuffle m (schedule_keys m) in activate_all m1 keys)"

definition schedule_log :: "model \<Rightarrow> (nat \<times> agent_kind) list" where
  "schedule_log m = (let (keys, m1) = shuffle m (schedule_keys m) in activation_log m1 keys)"

fun sub_steps :: "nat \<Rightarrow> model \<Rightarrow> py_error + model" where
  "sub_steps 0 m = Inr m"
| "sub_steps (Suc n) m =
     (case schedule_step m of
        Inl e \<Rightarrow> Inl e
      | Inr m' \<Rightarrow> sub_steps n (m'\<lparr>step_count := step_count m' + 1\<rparr>))"

text \<open>
  \<^verbatim>\<open>AntColonyModel.step\<close>. The reporting that follows the sub-steps (statistics, CSV,
  data collector) writes counters that the engine never reads and is left out.
\<close>

definition step :: "model \<Rightarrow> py_error + model" where
  "step m =
     (let m1 = m\<lparr>active_pheromones := int (length (pheromones m)),
                 active_to_nest_pheromones :=
                   int (length (filter (\<lambda>a. pheromone_type a = to_nest) (pheromones m))),
                 active_to_food_pheromones :=
                   int (length (filter (\<lambda>a. pheromone_type a = to_food) (pheromones m)))\<rparr>
      in case lifespan_to_evaporation m1 (to_nest_lifespan m1) of
           Inl e \<Rightarrow> Inl e
         | Inr r1 \<Rightarrow>
             (case lifespan_to_evaporation (m1\<lparr>to_nest_evaporation := r1\<rparr>) (to_food_lifespan m1) of
                Inl e \<Rightarrow> Inl e
              | Inr r2 \<Rightarrow>
                  sub_steps (nat (simulation_speed m1))
                    (m1\<lparr>to_nest_evaporation := r1, to_food_evaporation := r2\<rparr>)))"

subsection \<open>Construction\<close>

record config =
  cfg_width :: int
  cfg_height :: int
  cfg_n_ants :: int
  cfg_n_food_piles :: int
  cfg_food_pile_size :: int
  cfg_simulation_speed :: int
  cfg_to_nest_lifespan :: real
  cfg_to_food_lifespan :: real

text \<open>
  NumPy's process-global generator \<^verbatim>\<open>np.random\<close> is a second sequence of raw draws with
  its own cursor; the model's seed does not reach it. \<^verbatim>\<open>AntAgent.__init__\<close> draws
  \<^verbatim>\<open>direction\<close> from it.
\<close>

type_synonym np_random = "(nat \<Rightarrow> nat) \<times> nat"

definition np_random_randint :: "np_random \<Rightarrow> nat \<Rightarrow> nat \<times> np_random" where
  "np_random_randint g n = (fst g (snd g) mod n, (fst g, snd g + 1))"

definition AntAgent_init :: "nat \<Rightarrow> model \<Rightarrow> np_random \<Rightarrow> ant_agent \<times> np_random" where
  "AntAgent_init uid m g =
     (let (d, g1) = np_random_randint g 8
      in (\<lparr>unique_id = uid, pos = (0, 0), home_pos = nest_pos m, carrying_food = False,
            direction = d, last_direction = None, last_food_pos = None,
            returning_to_food = False, following_pheromones = False,
            just_dropped_food = False, exploration_cooldown = 0\<rparr>, g1))"

text \<open>One iteration of the ant loop of \<^verbatim>\<open>AntColonyModel.__init__\<close>, and the loop.\<close>

definition add_ant :: "model \<times> np_random \<Rightarrow> py_error + (model \<times> np_random)" where
  "add_ant s =
     (let (m, g) = s; (uid, m1) = next_id m; (ant, g1) = AntAgent_init uid m1 g
      in case random_randint m1 (-5) 5 of
           Inl e \<Rightarrow> Inl e
         | Inr (rx, m2) \<Rightarrow>
             (case random_randint m2 (-5) 5 of
                Inl e \<Rightarrow> Inl e
              | Inr (ry, m3) \<Rightarrow>
                  let x = fst (nest_pos m3) + rx; y = snd (nest_pos m3) + ry;
                      p = (x mod width m3, y mod height m3)
                  in Inr (m3\<lparr>ants := ants m3 @ [ant\<lparr>pos := p\<rparr>]\<rparr>, g1)))"

fun add_ants :: "nat \<Rightarrow> model \<times> np_random \<Rightarrow> py_error + (model \<times> np_random)" where
  "add_ants 0 s = Inr s"
| "add_ants (Suc n) s = (case add_ant s of Inl e \<Rightarrow> Inl e | Inr s' \<Rightarrow> add_ants n s')"

text \<open>
  \<^verbatim>\<open>place_food\<close>. The \<^verbatim>\<open>while True\<close> loop that draws a pile centre farther than
  \<^verbatim>\<open>min_dist\<close> from the nest need not end; \<open>None\<close> is the run that never returns.
\<close>

definition pile_draw :: "model \<Rightarrow> py_error + (pos \<times> model)" where
  "pile_draw m =
     (case random_randrange m (width m) of
        Inl e \<Rightarrow> Inl e
      | Inr (x, m1) \<Rightarrow>
          (case random_randrange m1 (height m1) of
             Inl e \<Rightarrow> Inl e
           | Inr (y, m2) \<Rightarrow> Inr ((x, y), m2)))"

definition far_enough :: "model \<Rightarrow> pos \<Rightarrow> bool" where
  "far_enough m p = (euclid p (nest_pos m) > real_of_int (max (width m) (height m) div 8))"

partial_function (option) pile_center :: "model \<Rightarrow> (py_error + (pos \<times> model)) option" where
  "pile_center m =
     (if isl (pile_draw m) then Some (pile_draw m)
      else if far_enough (snd (projr (pile_draw m))) (fst (projr (pile_draw m))) then Some (pile_draw m)
      else pile_center (snd (projr (pile_draw m))))"

definition add_food :: "pos \<Rightarrow> model \<Rightarrow> model" where
  "add_food p m =
     (let (uid, m1) = next_id m
      in m1\<lparr>foods := foods m1 @ [\<lparr>food_unique_id = uid, food_pos = p, amount = 1\<rparr>],
            total_food := total_food m1 + 1\<rparr>)"

definition pile_offsets :: "(int \<times> int) list" where
  "pile_offsets = filter (\<lambda>(dx, dy). dx * dx + dy * dy \<le> 4)
                    (concat (map (\<lambda>dx. map (\<lambda>dy. (dx, dy)) [-2 .. 2]) [-2 .. 2]))"

definition place_pile :: "model \<Rightarrow> pos \<Rightarrow> int \<Rightarrow> model" where
  "place_pile m c pile_size =
     (let food_per_cell = pile_size div 20
      in fold (\<lambda>(dx, dy) acc.
                 let food_x = min (max (fst c + dx) 0) (width acc - 1);
                     food_y = min (max (snd c + dy) 0) (height acc - 1)
                 in (add_food (food_x, food_y) ^^ nat food_per_cell) acc)
              pile_offsets m)"

fun place_food :: "nat \<Rightarrow> int \<Rightarrow> model \<Rightarrow> (py_error + model) option" where
  "place_food 0 pile_size m = Some (Inr m)"
| "place_food (Suc n) pile_size m =
     (case pile_center m of
        None \<Rightarrow> None
      | Some (Inl e) \<Rightarrow> Some (Inl e)
      | Some (Inr (c, m1)) \<Rightarrow> place_food n pile_size (place_pile m1 c pile_size))"

text \<open>
  \<^verbatim>\<open>AntColonyModel.__init__\<close> with the model's generator \<open>r\<close> (what the seed fixes) and
  NumPy's generator \<open>g\<close>. A grid without cells makes placing the nest raise
  \<^verbatim>\<open>IndexError\<close>. CSV output, the data collector and the debug print are left out.
\<close>

definition blank_model :: "config \<Rightarrow> (nat \<Rightarrow> nat) \<Rightarrow> model" where
  "blank_model c r =
     \<lparr>width = cfg_width c, height = cfg_height c, n_ants = cfg_n_ants c,
      simulation_speed = cfg_simulation_speed c,
      to_nest_lifespan = cfg_to_nest_lifespan c, to_food_lifespan = cfg_to_food_lifespan c,
      steps_per_second = 10, to_nest_evaporation = 0, to_food_evaporation = 0,
      food_delivered = 0, total_food = 0, step_count = 0,
      active_pheromones = 0, active_to_nest_pheromones = 0, active_to_food_pheromones = 0,
      next_id_value = 0, nest_pos = (0, 0), nest_unique_id = 0,
      ants = [], foods = [], pheromones = [], rng = r, rng_ix = 0\<rparr>"

definition AntColonyModel_init :: "config \<Rightarrow> (nat \<Rightarrow> nat) \<Rightarrow> np_random \<Rightarrow> (py_error + model) option" where
  "AntColonyModel_init c r g =
     (let m0 = blank_model c r
      in case lifespan_to_evaporation m0 (to_nest_lifespan m0) of
           Inl e \<Rightarrow> Some (Inl e)
         | Inr r1 \<Rightarrow>
             (case lifespan_to_evaporation m0 (to_food_lifespan m0) of
                Inl e \<Rightarrow> Some (Inl e)
              | Inr r2 \<Rightarrow>
                  if width m0 \<le> 0 \<or> height m0 \<le> 0 then Some (Inl IndexError)
                  else
                    let m1 = m0\<lparr>to_nest_evaporation := r1, to_food_evaporation := r2,
                                nest_pos := (width m0 div 2, height m0 div 2)\<rparr>;
                        (nid, m2) = next_id m1;
                        m3 = m2\<lparr>nest_unique_id := nid\<rparr>
                    in (case add_ants (nat (n_ants m3)) (m3, g) of
                          Inl e \<Rightarrow> Some (Inl e)
                        | Inr (m4, g') \<Rightarrow>
                            place_food (nat (cfg_n_food_piles c)) (cfg_food_pile_size c) m4)))"

text \<open>The states of a run: the constructed model and what \<^verbatim>\<open>step\<close> and, inside it, every
  single activation of an agent lead to.\<close>

inductive reachable :: "model \<Rightarrow> bool" where
  init: "AntColonyModel_init c r g = Some (Inr m) \<Longrightarrow> reachable m"
| activation: "reachable m \<Longrightarrow> agent_step m uid = Inr m' \<Longrightarrow> reachable m'"
| tick: "reachable m \<Longrightarrow> step m = Inr m' \<Longrightarrow> reachable m'"

subsection \<open>Notions of the specification\<close>

text \<open>
  The key of a pheromone is its position and type; the field has unique keys when no two live
  pheromones share one.
\<close>

definition at_key :: "pos \<Rightarrow> ptype \<Rightarrow> pheromone_agent \<Rightarrow> bool" where
  "at_key p t a = (ph_pos a = p \<and> pheromone_type a = t)"

definition unique_keys :: "pheromone_agent list \<Rightarrow> bool" where
  "unique_keys ps = distinct (map (\<lambda>a. (ph_pos a, pheromone_type a)) ps)"

text \<open>
  The deposit rule in the words of the specification: nothing closer than 3 to the nest,
  scaling by distance/10 below 10, the effective strength at the cell and 30 percent of it at
  each Moore neighbour.
\<close>

definition effective_strength :: "model \<Rightarrow> pos \<Rightarrow> real \<Rightarrow> real" where
  "effective_strength m p s =
     (if euclid p (nest_pos m) < 10 then s * (euclid p (nest_pos m) / 10) else s)"

definition deposit :: "model \<Rightarrow> pos \<Rightarrow> ptype \<Rightarrow> real \<Rightarrow> model" where
  "deposit m p t s =
     (if euclid p (nest_pos m) < 3 then m
      else fold (\<lambda>n acc. add_or_reinforce_pheromone acc n (0.3 * effective_strength m p s) t)
             (get_neighborhood m p 1)
             (add_or_reinforce_pheromone m p (effective_strength m p s) t))"

definition moore_neighbors :: "model \<Rightarrow> pos \<Rightarrow> pos set" where
  "moore_neighbors m p =
     ({(fst p - 1) mod width m, fst p mod width m, (fst p + 1) mod width m} \<times>
      {(snd p - 1) mod height m, snd p mod height m, (snd p + 1) mod height m}) - {p}"

definition in_grid :: "model \<Rightarrow> pos \<Rightarrow> bool" where
  "in_grid m p = (0 \<le> fst p \<and> fst p < width m \<and> 0 \<le> snd p \<and> snd p < height m)"

text \<open>
  One axis of the radius-1 neighbourhood: the wrapped coordinates that \<^const>\<open>get_neighborhood\<close>
  enumerates along a dimension of size \<open>w\<close>.
\<close>

definition axis :: "int \<Rightarrow> int \<Rightarrow> int list" where
  "axis w x = (let r = min 1 (w div 2); k = (if r = w div 2 \<and> (w + 1) mod 2 \<noteq> 0 then 1 else 0)
               in map (\<lambda>d. (x + d) mod w) [- r .. r - k])"

text \<open>Chebyshev distance on the torus of the given dimensions.\<close>

definition torus_chebyshev :: "int \<Rightarrow> int \<Rightarrow> pos \<Rightarrow> pos \<Rightarrow> int" where
  "torus_chebyshev w h p q =
     max (min \<bar>fst p - fst q\<bar> (w - \<bar>fst p - fst q\<bar>))
         (min \<bar>snd p - snd q\<bar> (h - \<bar>snd p - snd q\<bar>))"

text \<open>
  What moving an ant may change in the model: the pheromones, the identifier counter, the
  pheromone counter and the cursor of the generator, and nothing else.
\<close>

definition trail_frame :: "model \<Rightarrow> model \<Rightarrow> bool" where
  "trail_frame m m' =
     (m' = m\<lparr>pheromones := pheromones m', next_id_value := next_id_value m',
              active_pheromones := active_pheromones m', rng_ix := rng_ix m'\<rparr>)"

text \<open>What a draw from the generator changes in the model: the cursor only.\<close>

definition rng_frame :: "model \<Rightarrow> model \<Rightarrow> bool" where
  "rng_frame m m' = (m' = m\<lparr>rng_ix := rng_ix m'\<rparr>)"

text \<open>
  Two models on which a deposit does the same to the trails: same grid, nest, pheromones and
  identifier counter. What a move does to the trails: nothing, or one deposit of strength
  1 or 1.5 at the cell \<open>p\<close>, made on such a model.
\<close>

definition same_trails :: "model \<Rightarrow> model \<Rightarrow> bool" where
  "same_trails m m' =
     (width m' = width m \<and> height m' = height m \<and> nest_pos m' = nest_pos m \<and>
      pheromones m' = pheromones m \<and> next_id_value m' = next_id_value m)"

definition trail_step :: "model \<Rightarrow> pos \<Rightarrow> model \<Rightarrow> bool" where
  "trail_step m p m' =
     ((pheromones m' = pheromones m \<and> next_id_value m' = next_id_value m) \<or>
      (\<exists>m1 s t. same_trails m m1 \<and> (s = 1 \<or> s = 3 / 2) \<and>
         pheromones m' = pheromones (create_pheromone m1 p s t) \<and>
         next_id_value m' = next_id_value (create_pheromone m1 p s t)))"

text \<open>
  Two models with the same colony: grid, nest, agents and food counters agree; generator
  cursor, tick counter, reporting counters and evaporation rates may differ.
\<close>

definition same_colony :: "model \<Rightarrow> model \<Rightarrow> bool" where
  "same_colony m m' =
     (width m' = width m \<and> height m' = height m \<and> nest_pos m' = nest_pos m \<and>
      nest_unique_id m' = nest_unique_id m \<and> ants m' = ants m \<and> foods m' = foods m \<and>
      pheromones m' = pheromones m \<and> food_delivered m' = food_delivered m \<and>
      total_food m' = total_food m \<and> next_id_value m' = next_id_value m)"

text \<open>
  The shape of a colony in a run: a grid with cells, the nest at its centre, every ant inside
  the grid with the nest as its home, and every pheromone at distance at least 3 from the
  nest.
\<close>

definition colony_inv :: "model \<Rightarrow> bool" where
  "colony_inv m =
     (0 < width m \<and> 0 < height m \<and> nest_pos m = (width m div 2, height m div 2) \<and>
      (\<forall>a\<in>set (ants m). in_grid m (pos a) \<and> home_pos a = nest_pos m) \<and>
      (\<forall>p\<in>set (pheromones m). 3 \<le> euclid (ph_pos p) (nest_pos m)))"

text \<open>
  A colony under construction: well shaped, without pheromones and deliveries, with as much
  food on the grid as was counted, no ant carrying, and ant identifiers that are pairwise
  different and not above the identifier counter.
\<close>

definition fresh_colony :: "model \<Rightarrow> bool" where
  "fresh_colony m =
     (colony_inv m \<and> pheromones m = [] \<and> food_delivered m = 0 \<and>
      int (length (foods m)) = total_food m \<and>
      (\<forall>a\<in>set (ants m). \<not> carrying_food a \<and> unique_id a \<le> next_id_value m) \<and>
      distinct (map unique_id (ants m)))"

text \<open>A position wrapped onto the torus, as \<^verbatim>\<open>grid.move_agent\<close> stores it.\<close>

definition wrapped :: "model \<Rightarrow> pos \<Rightarrow> pos" where
  "wrapped m p = (fst p mod width m, snd p mod height m)"

text \<open>
  Food accounting: food units on the grid, plus deliveries, plus ants that carry, against the
  number of units placed. Ant identifiers are pairwise different.
\<close>

definition carrying_ants :: "model \<Rightarrow> int" where
  "carrying_ants m = int (length (filter carrying_food (ants m)))"

definition food_balance :: "model \<Rightarrow> bool" where
  "food_balance m =
     (int (length (foods m)) + food_delivered m + carrying_ants m = total_food m
      \<and> distinct (map unique_id (ants m)))"

subsection \<open>Example states\<close>

definition example_model :: model where
  "example_model =
     \<lparr>width = 40, height = 40, n_ants = 1, simulation_speed = 1,
      to_nest_lifespan = 10, to_food_lifespan = 6, steps_per_second = 10,
      to_nest_evaporation = 9 / 10, to_food_evaporation = 1 / 2,
      food_delivered = 0, total_food = 0, step_count = 0,
      active_pheromones = 0, active_to_nest_pheromones = 0, active_to_food_pheromones = 0,
      next_id_value = 3, nest_pos = (20, 20), nest_unique_id = 1,
      ants = [], foods = [], pheromones = [], rng = (\<lambda>i. 0), rng_ix = 0\<rparr>"

definition example_ant :: ant_agent where
  "example_ant =
     \<lparr>unique_id = 2, pos = (20, 26), home_pos = (20, 20), carrying_food = False,
      direction = 0, last_direction = None, last_food_pos = None,
      returning_to_food = False, following_pheromones = False,
      just_dropped_food = False, exploration_cooldown = 0\<rparr>"

definition example_pheromone :: pheromone_agent where
  "example_pheromone = \<lparr>ph_unique_id = 3, ph_pos = (20, 26), strength = 1, pheromone_type = to_food\<rparr>"

text \<open>A configuration with one ant and no food.\<close>

definition example_config :: config where
  "example_config =
     \<lparr>cfg_width = 40, cfg_height = 40, cfg_n_ants = 1, cfg_n_food_piles = 0,
      cfg_food_pile_size = 20, cfg_simulation_speed = 1,
      cfg_to_nest_lifespan = 10, cfg_to_food_lifespan = 6\<rparr>"

text \<open>
  A state in the middle of a run: an ant that delivered food four ticks ago, still in its
  post-delivery escape (cooldown 1) and on its way back to the food at (20, 30), stands on a
  cell that holds a to-food pheromone. The generator \<open>r\<close> is a parameter.
\<close>

definition pass_ant :: ant_agent where
  "pass_ant =
     \<lparr>unique_id = 2, pos = (20, 25), home_pos = (20, 20), carrying_food = False,
      direction = 0, last_direction = Some (0, 1), last_food_pos = Some (20, 30),
      returning_to_food = True, following_pheromones = False,
      just_dropped_food = False, exploration_cooldown = 1\<rparr>"

definition pass_pheromone :: pheromone_agent where
  "pass_pheromone = \<lparr>ph_unique_id = 3, ph_pos = (20, 25), strength = 1, pheromone_type = to_food\<rparr>"

definition pass_model :: "(nat \<Rightarrow> nat) \<Rightarrow> model" where
  "pass_model r = example_model\<lparr>ants := [pass_ant], pheromones := [pass_pheromone], rng := r\<rparr>"

text \<open>
  The order the specification asks of a pass: no ant is activated after a pheromone has
  decayed.
\<close>

fun no_ant_after_decay :: "(nat \<times> agent_kind) list \<Rightarrow> bool" where
  "no_ant_after_decay [] = True"
| "no_ant_after_decay ((k, PheromoneKind) # rest) =
     (AntKind \<notin> snd ` set rest \<and> no_ant_after_decay rest)"
| "no_ant_after_decay ((k, AntKind) # rest) = no_ant_after_decay rest"
| "no_ant_after_decay ((k, IdleKind) # rest) = no_ant_after_decay rest"

section \<open>Properties\<close>

subsection \<open>Auxiliary facts\<close>

lemma upto_m1_1: "[-1..1::int] = [-1, 0, 1]"
  by (simp add: upto.simps)

lemma upto_m1_0: "[-1..0::int] = [-1, 0]"
  by (simp add: upto.simps)

lemma euclid_same_x: "euclid (x, y) (x, y') = \<bar>real_of_int (y - y')\<bar>"
  by (simp add: euclid_def)

lemma euclid_lt_iff: "0 \<le> c \<Longrightarrow> euclid p q < c \<longleftrightarrow> real_of_int ((fst p - fst q)\<^sup>2 + (snd p - snd q)\<^sup>2) < c\<^sup>2"
  unfolding euclid_def by (metis abs_of_nonneg real_sqrt_abs real_sqrt_less_iff)

lemma euclid_gt_iff: "0 \<le> c \<Longrightarrow> euclid p q > c \<longleftrightarrow> real_of_int ((fst p - fst q)\<^sup>2 + (snd p - snd q)\<^sup>2) > c\<^sup>2"
  unfolding euclid_def by (metis abs_of_nonneg real_sqrt_abs real_sqrt_less_iff)

lemma euclid_nonneg: "0 \<le> euclid p q"
  by (simp add: euclid_def)

subsection \<open>Reinforcement and creation at one cell\<close>

lemma reinforce_first_None: "reinforce_first p v t ps = None \<longleftrightarrow> (\<forall>a\<in>set ps. \<not> at_key p t a)"
  by (induction ps) (auto simp: at_key_def)

lemma reinforce_first_Some:
  "reinforce_first p v t ps = Some qs \<Longrightarrow>
   \<exists>pre a post. ps = pre @ a # post \<and> (\<forall>b\<in>set pre. \<not> at_key p t b) \<and> at_key p t a \<and>
      qs = pre @ a\<lparr>strength := min 3 (strength a + v * 0.5)\<rparr> # post"
proof (induction ps arbitrary: qs)
  case Nil
  then show ?case by simp
next
  case (Cons b bs)
  show ?case
  proof (cases "at_key p t b")
    case True
    with Cons.prems have "qs = b\<lparr>strength := min 3 (strength b + v * 0.5)\<rparr> # bs"
      by (auto simp: at_key_def)
    with True show ?thesis
      by (intro exI[of _ "[]"] exI[of _ b] exI[of _ bs]) simp
  next
    case False
    with Cons.prems obtain qs' where q: "reinforce_first p v t bs = Some qs'" "qs = b # qs'"
      by (auto simp: at_key_def)
    from Cons.IH[OF q(1)] obtain pre a post where
      "bs = pre @ a # post" "\<forall>b\<in>set pre. \<not> at_key p t b" "at_key p t a"
      "qs' = pre @ a\<lparr>strength := min 3 (strength a + v * 0.5)\<rparr> # post"
      by blast
    with False q(2) show ?thesis
      by (intro exI[of _ "b # pre"] exI[of _ a] exI[of _ post]) simp
  qed
qed

lemma reinforce_first_keys:
  "reinforce_first p v t ps = Some qs \<Longrightarrow>
   map (\<lambda>a. (ph_pos a, pheromone_type a)) qs = map (\<lambda>a. (ph_pos a, pheromone_type a)) ps"
  by (induction ps arbitrary: qs) (auto split: if_splits)

lemma reinforce_first_ids:
  "reinforce_first p v t ps = Some qs \<Longrightarrow> map ph_unique_id qs = map ph_unique_id ps"
  by (induction ps arbitrary: qs) (auto split: if_splits)

text \<open>
  Claim C5. Applying a value \<open>v\<close> at a cell: when a pheromone of the type exists there, the
  first one gets strength \<open>min 3 (old + v * 0.5)\<close>, which is at most 3, nothing else changes and
  no pheromone is created; when none exists, a pheromone of strength exactly \<open>v\<close> is appended
  if \<open>v \<ge> 0.2\<close> and the model is unchanged if \<open>v < 0.2\<close>. A field with at most one pheromone
  per position and type stays so.
\<close>

theorem add_or_reinforce_pheromone_spec:
  "((\<exists>a\<in>set (pheromones m). at_key p t a) \<longrightarrow>
      (\<exists>pre a post. pheromones m = pre @ a # post \<and> (\<forall>b\<in>set pre. \<not> at_key p t b) \<and> at_key p t a \<and>
         add_or_reinforce_pheromone m p v t =
           m\<lparr>pheromones := pre @ a\<lparr>strength := min 3 (strength a + v * 0.5)\<rparr> # post\<rparr> \<and>
         min 3 (strength a + v * 0.5) \<le> 3 \<and>
         length (pheromones (add_or_reinforce_pheromone m p v t)) = length (pheromones m)))
   \<and> ((\<forall>a\<in>set (pheromones m). \<not> at_key p t a) \<and> v \<ge> 0.2 \<longrightarrow>
        pheromones (add_or_reinforce_pheromone m p v t) = pheromones m @
          [\<lparr>ph_unique_id = next_id_value m + 1, ph_pos = p, strength = v, pheromone_type = t\<rparr>])
   \<and> ((\<forall>a\<in>set (pheromones m). \<not> at_key p t a) \<and> v < 0.2 \<longrightarrow>
        add_or_reinforce_pheromone m p v t = m)
   \<and> (unique_keys (pheromones m) \<longrightarrow> unique_keys (pheromones (add_or_reinforce_pheromone m p v t)))"
proof (intro conjI impI)
  assume "\<exists>a\<in>set (pheromones m). at_key p t a"
  then obtain qs where q: "reinforce_first p v t (pheromones m) = Some qs"
    using reinforce_first_None[of p v t "pheromones m"]
    by (cases "reinforce_first p v t (pheromones m)") auto
  from reinforce_first_Some[OF q] obtain pre a post where
    *: "pheromones m = pre @ a # post" "\<forall>b\<in>set pre. \<not> at_key p t b" "at_key p t a"
       "qs = pre @ a\<lparr>strength := min 3 (strength a + v * 0.5)\<rparr> # post"
    by blast
  have "add_or_reinforce_pheromone m p v t = m\<lparr>pheromones := qs\<rparr>"
    by (simp add: add_or_reinforce_pheromone_def q)
  with * show "\<exists>pre a post. pheromones m = pre @ a # post \<and> (\<forall>b\<in>set pre. \<not> at_key p t b) \<and> at_key p t a \<and>
         add_or_reinforce_pheromone m p v t =
           m\<lparr>pheromones := pre @ a\<lparr>strength := min 3 (strength a + v * 0.5)\<rparr> # post\<rparr> \<and>
         min 3 (strength a + v * 0.5) \<le> 3 \<and>
         length (pheromones (add_or_reinforce_pheromone m p v t)) = length (pheromones m)"
    by (intro exI[of _ pre] exI[of _ a] exI[of _ post]) simp
next
  assume "(\<forall>a\<in>set (pheromones m). \<not> at_key p t a) \<and> v \<ge> 0.2"
  then have "reinforce_first p v t (pheromones m) = None" "v \<ge> 0.2"
    by (simp_all add: reinforce_first_None)
  then show "pheromones (add_or_reinforce_pheromone m p v t) = pheromones m @
               [\<lparr>ph_unique_id = next_id_value m + 1, ph_pos = p, strength = v, pheromone_type = t\<rparr>]"
    by (simp add: add_or_reinforce_pheromone_def next_id_def)
next
  assume "(\<forall>a\<in>set (pheromones m). \<not> at_key p t a) \<and> v < 0.2"
  then have "reinforce_first p v t (pheromones m) = None" "\<not> v \<ge> 0.2"
    by (simp_all add: reinforce_first_None)
  then show "add_or_reinforce_pheromone m p v t = m"
    by (simp add: add_or_reinforce_pheromone_def)
next
  assume u: "unique_keys (pheromones m)"
  show "unique_keys (pheromones (add_or_reinforce_pheromone m p v t))"
  proof (cases "reinforce_first p v t (pheromones m)")
    case None
    then have "\<forall>a\<in>set (pheromones m). \<not> at_key p t a"
      by (simp add: reinforce_first_None)
    then have "(p, t) \<notin> set (map (\<lambda>a. (ph_pos a, pheromone_type a)) (pheromones m))"
      by (auto simp: at_key_def)
    with u None show ?thesis
      by (auto simp: add_or_reinforce_pheromone_def next_id_def unique_keys_def)
  next
    case (Some qs)
    with u reinforce_first_keys[OF Some] show ?thesis
      by (simp add: add_or_reinforce_pheromone_def unique_keys_def)
  qed
qed

theorem add_or_reinforce_pheromone_spec_witness:
  "(\<exists>a\<in>set (pheromones (example_model\<lparr>pheromones := [example_pheromone]\<rparr>)). at_key (20, 26) to_food a)
   \<and> add_or_reinforce_pheromone (example_model\<lparr>pheromones := [example_pheromone]\<rparr>) (20, 26) 1 to_food
       = example_model\<lparr>pheromones := [example_pheromone\<lparr>strength := 3 / 2\<rparr>]\<rparr>
   \<and> add_or_reinforce_pheromone (example_model\<lparr>pheromones := [example_pheromone]\<rparr>) (20, 26) 10 to_food
       = example_model\<lparr>pheromones := [example_pheromone\<lparr>strength := 3\<rparr>]\<rparr>
   \<and> pheromones example_model = []
   \<and> pheromones (add_or_reinforce_pheromone example_model (20, 26) (1 / 2) to_food)
       = [\<lparr>ph_unique_id = 4, ph_pos = (20, 26), strength = 1 / 2, pheromone_type = to_food\<rparr>]
   \<and> add_or_reinforce_pheromone example_model (20, 26) (1 / 10) to_food = example_model
   \<and> unique_keys (pheromones (example_model\<lparr>pheromones := [example_pheromone]\<rparr>))
   \<and> unique_keys (pheromones (add_or_reinforce_pheromone
        (example_model\<lparr>pheromones := [example_pheromone]\<rparr>) (20, 26) 1 to_food))"
  using add_or_reinforce_pheromone_spec[of "example_model\<lparr>pheromones := [example_pheromone]\<rparr>" "(20, 26)" to_food 1]
        add_or_reinforce_pheromone_spec[of example_model "(20, 26)" to_food "1 / 2"]
        add_or_reinforce_pheromone_spec[of example_model "(20, 26)" to_food "1 / 10"]
  by (simp add: example_model_def example_pheromone_def at_key_def unique_keys_def
        add_or_reinforce_pheromone_def next_id_def)

subsection \<open>Deposits\<close>

lemma mod_neq_shift:
  fixes w x :: int
  assumes "0 < k" "k < w"
  shows "(x + k) mod w \<noteq> x mod w"
proof
  assume "(x + k) mod w = x mod w"
  then have "w dvd (x + k) - x"
    by (simp only: mod_eq_dvd_iff)
  then have "w dvd k"
    by simp
  with assms show False
    by (meson zdvd_not_zless)
qed

lemma axis_cases:
  assumes "0 < w"
  shows "distinct (axis w x) \<and> set (axis w x) = {(x - 1) mod w, x mod w, (x + 1) mod w}"
proof -
  consider "w = 1" | "w = 2" | "3 \<le> w"
    using assms by linarith
  then show ?thesis
  proof cases
    case 1
    then show ?thesis by (auto simp: axis_def)
  next
    case 2
    have "(x + 1) mod 2 = (x - 1) mod 2" by presburger
    moreover have "(x - 1) mod 2 \<noteq> x mod 2" by presburger
    ultimately show ?thesis using 2 by (auto simp: axis_def upto_m1_0)
  next
    case 3
    then have r: "min 1 (w div 2) = 1" by simp
    have k: "w div 2 = 1 \<longrightarrow> (w + 1) mod 2 \<noteq> 1" using 3 by presburger
    have d1: "(x - 1) mod w \<noteq> x mod w"
      using mod_neq_shift[of 1 w "x - 1"] 3 by simp
    have d2: "x mod w \<noteq> (x + 1) mod w"
      using mod_neq_shift[of 1 w x] 3 by simp
    have d3: "(x - 1) mod w \<noteq> (x + 1) mod w"
      using mod_neq_shift[of 2 w "x - 1"] 3 by (simp add: add.commute)
    have "axis w x = map (\<lambda>d. (x + d) mod w) [-1 .. 1]"
      unfolding axis_def Let_def r using k by (cases "w div 2 = 1") simp_all
    then have "axis w x = [(x - 1) mod w, x mod w, (x + 1) mod w]"
      by (simp add: upto_m1_1)
    then show ?thesis using d1 d2 d3 by auto
  qed
qed

lemma concat_map_product:
  "concat (map (\<lambda>a. map (\<lambda>b. (f a, g b)) ys) xs) = List.product (map f xs) (map g ys)"
  by (induction xs) (simp_all add: comp_def)

lemma get_neighborhood_axis:
  "get_neighborhood m p 1 =
     filter (\<lambda>c. c \<noteq> p) (List.product (axis (width m) (fst p)) (axis (height m) (snd p)))"
  by (simp only: get_neighborhood_def axis_def Let_def concat_map_product)

lemma get_neighborhood_moore:
  assumes "0 < width m" "0 < height m"
  shows "distinct (get_neighborhood m p 1)" "set (get_neighborhood m p 1) = moore_neighbors m p"
  using axis_cases[OF assms(1), of "fst p"] axis_cases[OF assms(2), of "snd p"]
  by (auto simp: get_neighborhood_axis moore_neighbors_def distinct_product)

lemma example_neighborhood:
  "get_neighborhood example_model (x, y) 1 =
     filter (\<lambda>c. c \<noteq> (x, y))
       [((x - 1) mod 40, (y - 1) mod 40), ((x - 1) mod 40, y mod 40), ((x - 1) mod 40, (y + 1) mod 40),
        (x mod 40, (y - 1) mod 40), (x mod 40, y mod 40), (x mod 40, (y + 1) mod 40),
        ((x + 1) mod 40, (y - 1) mod 40), ((x + 1) mod 40, y mod 40), ((x + 1) mod 40, (y + 1) mod 40)]"
  by (simp add: get_neighborhood_def example_model_def Let_def upto_m1_1)

text \<open>
  Claim C4. \<^verbatim>\<open>create_pheromone\<close> is the deposit rule of the specification: closer than 3 to
  the nest the model is returned unchanged; otherwise the strength, scaled by distance/10
  when the distance is below 10, is applied at the cell and 30 percent of it at every cell of
  the radius-1 neighbourhood, which on a grid with cells lists every Moore neighbour once.
\<close>

theorem create_pheromone_deposit:
  "create_pheromone m p s t = deposit m p t s
   \<and> (euclid p (nest_pos m) < 3 \<longrightarrow> create_pheromone m p s t = m)
   \<and> (0 < width m \<and> 0 < height m \<longrightarrow>
        distinct (get_neighborhood m p 1) \<and> set (get_neighborhood m p 1) = moore_neighbors m p)"
proof (intro conjI impI)
  show "create_pheromone m p s t = deposit m p t s"
    by (simp add: create_pheromone_def deposit_def effective_strength_def Let_def mult.commute)
next
  assume "euclid p (nest_pos m) < 3"
  then show "create_pheromone m p s t = m"
    by (simp add: create_pheromone_def)
next
  assume "0 < width m \<and> 0 < height m"
  then show "distinct (get_neighborhood m p 1)"
    by (simp add: get_neighborhood_moore)
next
  assume "0 < width m \<and> 0 < height m"
  then show "set (get_neighborhood m p 1) = moore_neighbors m p"
    by (simp add: get_neighborhood_moore)
qed

theorem create_pheromone_deposit_witness:
  "euclid (20, 22) (nest_pos example_model) < 3
   \<and> create_pheromone example_model (20, 22) 1 to_food = example_model
   \<and> 0 < width example_model \<and> 0 < height example_model
   \<and> distinct (get_neighborhood example_model (20, 26) 1)
   \<and> set (get_neighborhood example_model (20, 26) 1) = moore_neighbors example_model (20, 26)
   \<and> map (\<lambda>a. (ph_pos a, strength a, pheromone_type a))
        (pheromones (create_pheromone example_model (20, 26) (3 / 2) to_nest))
       = [((20, 26), 9 / 10, to_nest),
          ((19, 25), 27 / 100, to_nest), ((19, 26), 27 / 100, to_nest), ((19, 27), 27 / 100, to_nest),
          ((20, 25), 27 / 100, to_nest), ((20, 27), 27 / 100, to_nest),
          ((21, 25), 27 / 100, to_nest), ((21, 26), 27 / 100, to_nest), ((21, 27), 27 / 100, to_nest)]"
proof -
  have d: "euclid (20, 22) (nest_pos example_model) < 3"
    by (simp add: example_model_def euclid_same_x)
  have w: "0 < width example_model \<and> 0 < height example_model"
    by (simp add: example_model_def)
  have e: "map (\<lambda>a. (ph_pos a, strength a, pheromone_type a))
        (pheromones (deposit example_model (20, 26) to_nest (3 / 2)))
       = [((20, 26), 9 / 10, to_nest),
          ((19, 25), 27 / 100, to_nest), ((19, 26), 27 / 100, to_nest), ((19, 27), 27 / 100, to_nest),
          ((20, 25), 27 / 100, to_nest), ((20, 27), 27 / 100, to_nest),
          ((21, 25), 27 / 100, to_nest), ((21, 26), 27 / 100, to_nest), ((21, 27), 27 / 100, to_nest)]"
    unfolding deposit_def example_neighborhood effective_strength_def
    by (simp add: example_model_def euclid_same_x add_or_reinforce_pheromone_def next_id_def)
  from create_pheromone_deposit[of example_model "(20, 22)" 1 to_food] d
  have c1: "create_pheromone example_model (20, 22) 1 to_food = example_model"
    by blast
  from create_pheromone_deposit[of example_model "(20, 26)" "3 / 2" to_nest] w
  have c2: "distinct (get_neighborhood example_model (20, 26) 1)"
    and c3: "set (get_neighborhood example_model (20, 26) 1) = moore_neighbors example_model (20, 26)"
    and c4: "create_pheromone example_model (20, 26) (3 / 2) to_nest
               = deposit example_model (20, 26) to_nest (3 / 2)"
    by blast+
  show ?thesis
    using d w c1 c2 c3 e unfolding c4 by simp
qed

subsection \<open>Decay\<close>

lemma pheromone_step_split:
  assumes "pheromones m = pre @ a # post"
      and "ph_unique_id a \<notin> ph_unique_id ` set pre" "ph_unique_id a \<notin> ph_unique_id ` set post"
  shows "pheromones (pheromone_step m (ph_unique_id a)) =
           pre @ (if strength a * evaporation_of m (pheromone_type a) < 0.05 then []
                  else [a\<lparr>strength := strength a * evaporation_of m (pheromone_type a)\<rparr>]) @ post"
proof -
  have pre: "filter (\<lambda>b. ph_unique_id b = ph_unique_id a \<longrightarrow> P b)
               (map (\<lambda>b. if ph_unique_id b = ph_unique_id a then f b else b) xs) = xs"
    if "ph_unique_id a \<notin> ph_unique_id ` set xs" for xs P f
    using that by (induction xs) auto
  show ?thesis
    using assms by (simp add: pheromone_step_def pre decayed_def)
qed

lemma pheromone_step_decay_of:
  assumes "a \<in> set (pheromones m)" and "distinct (map ph_unique_id (pheromones m))"
  shows "\<exists>pre post. pheromones m = pre @ a # post \<and>
           pheromones (pheromone_step m (ph_unique_id a)) =
             pre @ (if strength a * evaporation_of m (pheromone_type a) < 0.05 then []
                    else [a\<lparr>strength := strength a * evaporation_of m (pheromone_type a)\<rparr>]) @ post \<and>
           (ph_unique_id a \<notin> ph_unique_id ` set (pheromones (pheromone_step m (ph_unique_id a)))
              \<longleftrightarrow> strength a * evaporation_of m (pheromone_type a) < 0.05)"
proof -
  from assms(1) obtain pre post where sp: "pheromones m = pre @ a # post"
    by (meson split_list)
  with assms(2) have d: "ph_unique_id a \<notin> ph_unique_id ` set pre" "ph_unique_id a \<notin> ph_unique_id ` set post"
    by auto
  have eq: "pheromones (pheromone_step m (ph_unique_id a)) =
             pre @ (if strength a * evaporation_of m (pheromone_type a) < 0.05 then []
                    else [a\<lparr>strength := strength a * evaporation_of m (pheromone_type a)\<rparr>]) @ post"
    by (rule pheromone_step_split[OF sp d])
  have "ph_unique_id a \<notin> ph_unique_id ` set (pheromones (pheromone_step m (ph_unique_id a)))
              \<longleftrightarrow> strength a * evaporation_of m (pheromone_type a) < 0.05"
    unfolding eq using d by auto
  with sp eq show ?thesis by blast
qed

text \<open>
  Claim C6, as amended. The decay of a live pheromone \<open>a\<close> is its own turn in a pass,
  \<^verbatim>\<open>PheromoneAgent.step\<close>. With unique identifiers, that turn multiplies the strength \<open>a\<close>
  has at that moment by the current factor of its type, \<^verbatim>\<open>to_nest_evaporation\<close> for a to-nest
  and \<^verbatim>\<open>to_food_evaporation\<close> for a to-food pheromone, and leaves every other pheromone as
  it is; \<open>a\<close> is absent from the field afterwards exactly when the new strength is below
  0.05, and is present with the new strength otherwise.
\<close>

theorem pheromone_step_decay_own_turn:
  assumes "a \<in> set (pheromones m)" and "distinct (map ph_unique_id (pheromones m))"
  shows "\<exists>pre post. pheromones m = pre @ a # post \<and>
           pheromones (pheromone_step m (ph_unique_id a)) =
             pre @ (if strength a * (if pheromone_type a = to_nest then to_nest_evaporation m
                                     else to_food_evaporation m) < 0.05 then []
                    else [a\<lparr>strength := strength a *
                              (if pheromone_type a = to_nest then to_nest_evaporation m
                               else to_food_evaporation m)\<rparr>]) @ post \<and>
           (ph_unique_id a \<notin> ph_unique_id ` set (pheromones (pheromone_step m (ph_unique_id a)))
              \<longleftrightarrow> strength a * (if pheromone_type a = to_nest then to_nest_evaporation m
                                  else to_food_evaporation m) < 0.05)"
proof -
  have e: "evaporation_of m (pheromone_type a) =
          (if pheromone_type a = to_nest then to_nest_evaporation m else to_food_evaporation m)"
    by (cases "pheromone_type a") (simp_all add: evaporation_of_def)
  show ?thesis
    by (rule pheromone_step_decay_of[OF assms, unfolded e])
qed

theorem pheromone_step_decay_own_turn_witness:
  "example_pheromone\<lparr>ph_unique_id := 4, pheromone_type := to_nest\<rparr>
     \<in> set (pheromones (example_model\<lparr>pheromones :=
          [example_pheromone, example_pheromone\<lparr>ph_unique_id := 4, pheromone_type := to_nest\<rparr>,
           example_pheromone\<lparr>ph_unique_id := 5, strength := 2 / 25\<rparr>]\<rparr>))
   \<and> distinct (map ph_unique_id (pheromones (example_model\<lparr>pheromones :=
          [example_pheromone, example_pheromone\<lparr>ph_unique_id := 4, pheromone_type := to_nest\<rparr>,
           example_pheromone\<lparr>ph_unique_id := 5, strength := 2 / 25\<rparr>]\<rparr>)))
   \<and> to_nest_evaporation example_model = 9 / 10 \<and> to_food_evaporation example_model = 1 / 2
   \<and> pheromones (pheromone_step (example_model\<lparr>pheromones :=
          [example_pheromone, example_pheromone\<lparr>ph_unique_id := 4, pheromone_type := to_nest\<rparr>,
           example_pheromone\<lparr>ph_unique_id := 5, strength := 2 / 25\<rparr>]\<rparr>) 4)
       = [example_pheromone,
          example_pheromone\<lparr>ph_unique_id := 4, pheromone_type := to_nest, strength := 9 / 10\<rparr>,
          example_pheromone\<lparr>ph_unique_id := 5, strength := 2 / 25\<rparr>]
   \<and> pheromones (pheromone_step (example_model\<lparr>pheromones :=
          [example_pheromone, example_pheromone\<lparr>ph_unique_id := 4, pheromone_type := to_nest\<rparr>,
           example_pheromone\<lparr>ph_unique_id := 5, strength := 2 / 25\<rparr>]\<rparr>) 3)
       = [example_pheromone\<lparr>strength := 1 / 2\<rparr>,
          example_pheromone\<lparr>ph_unique_id := 4, pheromone_type := to_nest\<rparr>,
          example_pheromone\<lparr>ph_unique_id := 5, strength := 2 / 25\<rparr>]
   \<and> pheromones (pheromone_step (example_model\<lparr>pheromones :=
          [example_pheromone, example_pheromone\<lparr>ph_unique_id := 4, pheromone_type := to_nest\<rparr>,
           example_pheromone\<lparr>ph_unique_id := 5, strength := 2 / 25\<rparr>]\<rparr>) 5)
       = [example_pheromone, example_pheromone\<lparr>ph_unique_id := 4, pheromone_type := to_nest\<rparr>]"
proof -
  let ?p4 = "example_pheromone\<lparr>ph_unique_id := 4, pheromone_type := to_nest\<rparr>"
  let ?p5 = "example_pheromone\<lparr>ph_unique_id := 5, strength := 2 / 25\<rparr>"
  let ?m = "example_model\<lparr>pheromones := [example_pheromone, ?p4, ?p5]\<rparr>"
  have h1: "?p4 \<in> set (pheromones ?m)"
    by simp
  have h2: "distinct (map ph_unique_id (pheromones ?m))"
    by (simp add: example_pheromone_def)
  have f: "to_nest_evaporation example_model = 9 / 10" "to_food_evaporation example_model = 1 / 2"
    by (simp_all add: example_model_def)
  from pheromone_step_decay_own_turn[OF h1 h2] obtain pre post where
    sp: "pheromones ?m = pre @ ?p4 # post" and
    st: "pheromones (pheromone_step ?m (ph_unique_id ?p4)) =
           pre @ (if strength ?p4 * (if pheromone_type ?p4 = to_nest then to_nest_evaporation ?m
                                     else to_food_evaporation ?m) < 0.05 then []
                  else [?p4\<lparr>strength := strength ?p4 *
                            (if pheromone_type ?p4 = to_nest then to_nest_evaporation ?m
                             else to_food_evaporation ?m)\<rparr>]) @ post"
    by blast
  have "pre = [example_pheromone] \<and> post = [?p5]"
  proof -
    from sp have e: "[example_pheromone, ?p4, ?p5] = pre @ ?p4 # post"
      by simp
    have ne: "example_pheromone \<noteq> ?p4" "?p5 \<noteq> ?p4"
      by (simp_all add: example_pheromone_def)
    from e ne show ?thesis
      by (auto simp: Cons_eq_append_conv append_eq_Cons_conv)
  qed
  with st have r4: "pheromones (pheromone_step ?m 4) =
      [example_pheromone, ?p4\<lparr>strength := 9 / 10\<rparr>, ?p5]"
    by (simp add: f example_pheromone_def)
  have r3: "pheromones (pheromone_step ?m 3) = [example_pheromone\<lparr>strength := 1 / 2\<rparr>, ?p4, ?p5]"
    by (simp add: pheromone_step_def example_pheromone_def f decayed_def evaporation_of_def)
  have r5: "pheromones (pheromone_step ?m 5) = [example_pheromone, ?p4]"
    by (simp add: pheromone_step_def example_pheromone_def f decayed_def evaporation_of_def)
  from h1 h2 f r4 r3 r5 show ?thesis
    by simp
qed

subsection \<open>Evaporation factor\<close>

lemma factor_mono:
  fixes T T' :: real
  assumes "T \<le> T'"
  shows "(if T \<le> 0 then 0 else max 0.01 (min 0.999 (0.05 powr (1 / T))))
       \<le> (if T' \<le> 0 then 0 else max (0.01::real) (min 0.999 (0.05 powr (1 / T'))))"
proof (cases "T \<le> 0")
  case True
  then show ?thesis by (simp add: max_def)
next
  case False
  then have pos: "0 < T" "0 < T'"
    using assms by simp_all
  then have "1 / T' \<le> 1 / T"
    using assms by (simp add: frac_le)
  then have "(0.05::real) powr (1 / T) \<le> 0.05 powr (1 / T')"
    by (intro powr_mono') simp_all
  then show ?thesis
    using pos by (simp add: max_def min_def)
qed

lemma lifespan_to_evaporation_eq:
  assumes "simulation_speed m \<noteq> 0"
  shows "lifespan_to_evaporation m l =
     Inr (let total = l * real_of_int (steps_per_second m) / real_of_int (simulation_speed m)
          in if total \<le> 0 then 0 else max 0.01 (min 0.999 (0.05 powr (1 / total))))"
  using assms by (simp add: lifespan_to_evaporation_def Let_def)

text \<open>
  Claim C7, as amended. For every lifespan and every positive speed multiplier (with a
  positive number of ticks per second) the evaporation factor is \<open>0.05 powr (1 / total)\<close>
  clamped into \<open>[0.01, 0.999]\<close>, where \<open>total = lifespan * ticksPerSecond / speed\<close>, and is 0
  when \<open>total \<le> 0\<close>; it is 0 or within \<open>[0.01, 0.999]\<close>, it does not decrease when the lifespan
  grows and it does not increase when the speed multiplier grows.
\<close>

theorem lifespan_to_evaporation_positive_speed:
  assumes "0 < simulation_speed m" and "0 < steps_per_second m"
  shows "lifespan_to_evaporation m l =
           Inr (let total = l * real_of_int (steps_per_second m) / real_of_int (simulation_speed m)
                in if total \<le> 0 then 0 else max 0.01 (min 0.999 (0.05 powr (1 / total))))
       \<and> (projr (lifespan_to_evaporation m l) = 0 \<or>
            (0.01 \<le> projr (lifespan_to_evaporation m l) \<and> projr (lifespan_to_evaporation m l) \<le> 0.999))
       \<and> (\<forall>l'. l \<le> l' \<longrightarrow>
             projr (lifespan_to_evaporation m l) \<le> projr (lifespan_to_evaporation m l'))
       \<and> (\<forall>s'. simulation_speed m \<le> s' \<longrightarrow>
             projr (lifespan_to_evaporation (m\<lparr>simulation_speed := s'\<rparr>) l)
               \<le> projr (lifespan_to_evaporation m l))"
proof (intro conjI allI impI)
  show "lifespan_to_evaporation m l =
           Inr (let total = l * real_of_int (steps_per_second m) / real_of_int (simulation_speed m)
                in if total \<le> 0 then 0 else max 0.01 (min 0.999 (0.05 powr (1 / total))))"
    using assms by (simp add: lifespan_to_evaporation_eq)
next
  show "projr (lifespan_to_evaporation m l) = 0 \<or>
            (0.01 \<le> projr (lifespan_to_evaporation m l) \<and> projr (lifespan_to_evaporation m l) \<le> 0.999)"
    using assms by (simp add: lifespan_to_evaporation_eq Let_def max_def min_def)
next
  fix l' :: real
  assume "l \<le> l'"
  then have "l * real_of_int (steps_per_second m) / real_of_int (simulation_speed m)
           \<le> l' * real_of_int (steps_per_second m) / real_of_int (simulation_speed m)"
    using assms by (simp add: divide_right_mono mult_right_mono)
  from factor_mono[OF this]
  show "projr (lifespan_to_evaporation m l) \<le> projr (lifespan_to_evaporation m l')"
    using assms by (simp add: lifespan_to_evaporation_eq Let_def)
next
  fix s'
  assume s: "simulation_speed m \<le> s'"
  then have s'pos: "0 < s'"
    using assms by simp
  let ?c = "real_of_int (steps_per_second m)"
  have le: "l * ?c / real_of_int s' \<le> l * ?c / real_of_int (simulation_speed m)" if "0 \<le> l"
    using that assms s s'pos by (intro divide_left_mono) (simp_all add: mult_pos_pos)
  show "projr (lifespan_to_evaporation (m\<lparr>simulation_speed := s'\<rparr>) l)
               \<le> projr (lifespan_to_evaporation m l)"
  proof (cases "0 \<le> l")
    case True
    from factor_mono[OF le[OF True]] show ?thesis
      using assms s'pos by (simp add: lifespan_to_evaporation_eq Let_def)
  next
    case False
    then have "l * ?c / real_of_int s' \<le> 0" "l * ?c / real_of_int (simulation_speed m) \<le> 0"
      using assms s'pos by (simp_all add: divide_nonpos_pos mult_nonpos_nonneg)
    then show ?thesis
      using assms s'pos by (simp add: lifespan_to_evaporation_eq Let_def)
  qed
qed

theorem lifespan_to_evaporation_positive_speed_witness:
  "0 < simulation_speed example_model \<and> 0 < steps_per_second example_model
   \<and> lifespan_to_evaporation example_model 10 = Inr (max 0.01 (min 0.999 (0.05 powr (1 / 100))))
   \<and> lifespan_to_evaporation example_model (-1) = Inr 0
   \<and> projr (lifespan_to_evaporation example_model 10) \<le> projr (lifespan_to_evaporation example_model 20)
   \<and> projr (lifespan_to_evaporation (example_model\<lparr>simulation_speed := 5\<rparr>) 10)
        \<le> projr (lifespan_to_evaporation example_model 10)"
proof -
  have h: "0 < simulation_speed example_model" "0 < steps_per_second example_model"
    by (simp_all add: example_model_def)
  have s: "simulation_speed example_model \<le> 5"
    by (simp add: example_model_def)
  have t: "real_of_int (steps_per_second example_model) / real_of_int (simulation_speed example_model) = 10"
    by (simp add: example_model_def)
  note T = lifespan_to_evaporation_positive_speed[OF h, of 10]
  from T have a: "lifespan_to_evaporation example_model 10 =
             Inr (let total = 10 * real_of_int (steps_per_second example_model)
                                 / real_of_int (simulation_speed example_model)
                  in if total \<le> 0 then 0 else max 0.01 (min 0.999 (0.05 powr (1 / total))))"
    and b0: "\<And>l'. 10 \<le> l' \<Longrightarrow>
               projr (lifespan_to_evaporation example_model 10) \<le> projr (lifespan_to_evaporation example_model l')"
    and c0: "\<And>s'. simulation_speed example_model \<le> s' \<Longrightarrow>
               projr (lifespan_to_evaporation (example_model\<lparr>simulation_speed := s'\<rparr>) 10)
                 \<le> projr (lifespan_to_evaporation example_model 10)"
    by blast+
  have b: "projr (lifespan_to_evaporation example_model 10) \<le> projr (lifespan_to_evaporation example_model 20)"
    by (rule b0) simp
  have c: "projr (lifespan_to_evaporation (example_model\<lparr>simulation_speed := 5\<rparr>) 10)
              \<le> projr (lifespan_to_evaporation example_model 10)"
    by (rule c0) (rule s)
  from lifespan_to_evaporation_positive_speed[OF h, of "-1"]
  have d: "lifespan_to_evaporation example_model (-1) =
             Inr (let total = (-1) * real_of_int (steps_per_second example_model)
                                 / real_of_int (simulation_speed example_model)
                  in if total \<le> 0 then 0 else max 0.01 (min 0.999 (0.05 powr (1 / total))))"
    by blast
  have a': "lifespan_to_evaporation example_model 10 = Inr (max 0.01 (min 0.999 (0.05 powr (1 / 100))))"
    unfolding a by (simp add: example_model_def)
  have d': "lifespan_to_evaporation example_model (-1) = Inr 0"
    unfolding d by (simp add: example_model_def)
  show ?thesis
    using h a' d' b c by simp
qed

text \<open>
  The claim as stated, for every speed multiplier, fails: with multiplier 0 the division
  raises and there is no factor, and from multiplier -1 to multiplier 1 the factor grows
  from 0 to a positive value.
\<close>

theorem lifespan_to_evaporation_speed_counterexample:
  "lifespan_to_evaporation (example_model\<lparr>simulation_speed := 0\<rparr>) 10 = Inl ZeroDivisionError
   \<and> lifespan_to_evaporation (example_model\<lparr>simulation_speed := - 1\<rparr>) 10 = Inr 0
   \<and> \<not> projr (lifespan_to_evaporation (example_model\<lparr>simulation_speed := 1\<rparr>) 10)
         \<le> projr (lifespan_to_evaporation (example_model\<lparr>simulation_speed := - 1\<rparr>) 10)"
  by (simp add: lifespan_to_evaporation_def example_model_def Let_def)

subsection \<open>Delivering food\<close>

lemma torus_axis:
  fixes w x :: int
  assumes "0 < w" "0 \<le> x" "x < w"
  shows "min \<bar>x - w div 2\<bar> (w - \<bar>x - w div 2\<bar>) \<le> 1 \<longleftrightarrow> \<bar>x - w div 2\<bar> \<le> 1"
  using assms by (auto simp: min_def abs_if; presburger)

text \<open>
  Claim C8. For an ant inside the grid whose nest is the grid centre: a carrying ant drops
  its food exactly when it is within Chebyshev distance 1 of the nest on the torus; then
  \<^verbatim>\<open>carrying_food\<close> becomes false, the delivered-food counter grows by exactly 1, the
  cooldown is set to 5 and \<^verbatim>\<open>returning_to_food\<close> (with \<^verbatim>\<open>just_dropped_food\<close>) to true,
  and nothing else changes. Otherwise, and whenever the ant is not carrying, model and ant
  are unchanged. The counter never decreases.
\<close>

theorem drop_food_at_nest_spec:
  assumes "0 < width m" "0 < height m" "in_grid m (pos a)"
      and "home_pos a = (width m div 2, height m div 2)"
  shows "(carrying_food a \<and> torus_chebyshev (width m) (height m) (pos a) (home_pos a) \<le> 1 \<longrightarrow>
            drop_food_at_nest m a =
              (True, m\<lparr>food_delivered := food_delivered m + 1\<rparr>,
               a\<lparr>carrying_food := False, just_dropped_food := True,
                 returning_to_food := True, exploration_cooldown := 5\<rparr>))
       \<and> (carrying_food a \<and> \<not> torus_chebyshev (width m) (height m) (pos a) (home_pos a) \<le> 1 \<longrightarrow>
            drop_food_at_nest m a = (False, m, a))
       \<and> (\<not> carrying_food a \<longrightarrow> drop_food_at_nest m a = (False, m, a))
       \<and> food_delivered m \<le> food_delivered (fst (snd (drop_food_at_nest m a)))"
proof -
  have "torus_chebyshev (width m) (height m) (pos a) (home_pos a) \<le> 1 \<longleftrightarrow>
          \<bar>fst (pos a) - fst (home_pos a)\<bar> \<le> 1 \<and> \<bar>snd (pos a) - snd (home_pos a)\<bar> \<le> 1"
    using assms torus_axis[of "width m" "fst (pos a)"] torus_axis[of "height m" "snd (pos a)"]
    by (simp add: torus_chebyshev_def in_grid_def)
  then show ?thesis
    by (simp add: drop_food_at_nest_def Let_def)
qed

theorem drop_food_at_nest_spec_witness:
  "0 < width example_model \<and> 0 < height example_model
   \<and> in_grid example_model (pos (example_ant\<lparr>pos := (21, 19), carrying_food := True\<rparr>))
   \<and> home_pos example_ant = (width example_model div 2, height example_model div 2)
   \<and> torus_chebyshev 40 40 (21, 19) (20, 20) \<le> 1
   \<and> drop_food_at_nest example_model (example_ant\<lparr>pos := (21, 19), carrying_food := True\<rparr>)
       = (True, example_model\<lparr>food_delivered := 1\<rparr>,
          example_ant\<lparr>pos := (21, 19), carrying_food := False, just_dropped_food := True,
                      returning_to_food := True, exploration_cooldown := 5\<rparr>)
   \<and> \<not> torus_chebyshev 40 40 (20, 26) (20, 20) \<le> 1
   \<and> drop_food_at_nest example_model (example_ant\<lparr>carrying_food := True\<rparr>)
       = (False, example_model, example_ant\<lparr>carrying_food := True\<rparr>)
   \<and> drop_food_at_nest example_model (example_ant\<lparr>pos := (21, 19)\<rparr>)
       = (False, example_model, example_ant\<lparr>pos := (21, 19)\<rparr>)"
  using drop_food_at_nest_spec[of example_model "example_ant\<lparr>pos := (21, 19), carrying_food := True\<rparr>"]
        drop_food_at_nest_spec[of example_model "example_ant\<lparr>carrying_food := True\<rparr>"]
        drop_food_at_nest_spec[of example_model "example_ant\<lparr>pos := (21, 19)\<rparr>"]
  by (simp add: example_model_def example_ant_def in_grid_def torus_chebyshev_def)

subsection \<open>Escaping from the nest\<close>

lemma away_loop_none: "away_loop a steps = (None, Infinity)"
  unfolding away_loop_def by (induction steps) simp_all

lemma move_away_from_nest_random: "move_away_from_nest m a steps = random_choice m steps"
  by (simp add: move_away_from_nest_def away_loop_none)

text \<open>
  Claim C2 at a failing input. On the 40 by 40 torus with the nest at (20, 20), an ant at
  (22, 20) in the post-delivery state (cooldown 5) whose generator draws 0: the neighbour
  (23, 21) is farther from the nest than the ant, yet \<^verbatim>\<open>move_away_from_nest\<close> returns the first
  neighbour (21, 19), which is closer to the nest, after consuming a draw, and \<^verbatim>\<open>move\<close> puts
  the ant there. The running maximum starts at \<^verbatim>\<open>float('inf')\<close>, so no neighbour ever
  replaces it and the random fallback is always taken.
\<close>

theorem move_away_from_nest_failing_input:
  "(23, 21) \<in> set (get_neighborhood example_model (22, 20) 1)
   \<and> euclid (23, 21) (20, 20) > euclid (22, 20) (20, 20)
   \<and> euclid (21, 19) (20, 20) < euclid (22, 20) (20, 20)
   \<and> move_away_from_nest example_model (example_ant\<lparr>pos := (22, 20), exploration_cooldown := 5\<rparr>)
        (get_neighborhood example_model (22, 20) 1)
       = Inr ((21, 19), example_model\<lparr>rng_ix := 1\<rparr>)
   \<and> move example_model (example_ant\<lparr>pos := (22, 20), exploration_cooldown := 5\<rparr>)
       = Inr (example_model\<lparr>rng_ix := 1\<rparr>,
              example_ant\<lparr>pos := (21, 19), exploration_cooldown := 4, last_direction := Some (0, 0)\<rparr>)"
proof -
  have n: "get_neighborhood example_model (22, 20) 1 =
             [(21, 19), (21, 20), (21, 21), (22, 19), (22, 21), (23, 19), (23, 20), (23, 21)]"
    by (simp add: example_neighborhood)
  have c: "random_choice example_model
             [(21, 19), (21, 20), (21, 21), (22, 19), (22, 21), (23, 19), (23, 20), (23, 21::int)]
           = Inr ((21, 19::int), example_model\<lparr>rng_ix := 1\<rparr>)"
    by (simp add: random_choice_def draw_def example_model_def)
  have e: "euclid (23, 21) (20, 20) > euclid (22, 20) (20, 20)"
          "euclid (21, 19) (20, 20) < euclid (22, 20) (20, 20)"
    unfolding euclid_def real_sqrt_less_iff by simp_all
  have w: "width example_model = 40" "height example_model = 40"
    by (simp_all add: example_model_def)
  have m: "move example_model (example_ant\<lparr>pos := (22, 20), exploration_cooldown := 5\<rparr>)
       = Inr (example_model\<lparr>rng_ix := 1\<rparr>,
              example_ant\<lparr>pos := (21, 19), exploration_cooldown := 4, last_direction := Some (0, 0)\<rparr>)"
    unfolding move_def escape_move_def Let_def
    by (simp add: n c w move_away_from_nest_random finish_move_def example_ant_def)
  show ?thesis
    using e m by (simp add: n c move_away_from_nest_random)
qed

subsection \<open>What a move changes\<close>

lemma trail_frame_iff:
  "trail_frame m m' \<longleftrightarrow>
     width m' = width m \<and> height m' = height m \<and> n_ants m' = n_ants m \<and>
     simulation_speed m' = simulation_speed m \<and> to_nest_lifespan m' = to_nest_lifespan m \<and>
     to_food_lifespan m' = to_food_lifespan m \<and> steps_per_second m' = steps_per_second m \<and>
     to_nest_evaporation m' = to_nest_evaporation m \<and> to_food_evaporation m' = to_food_evaporation m \<and>
     food_delivered m' = food_delivered m \<and> total_food m' = total_food m \<and>
     step_count m' = step_count m \<and>
     active_to_nest_pheromones m' = active_to_nest_pheromones m \<and>
     active_to_food_pheromones m' = active_to_food_pheromones m \<and>
     nest_pos m' = nest_pos m \<and> nest_unique_id m' = nest_unique_id m \<and>
     ants m' = ants m \<and> foods m' = foods m \<and> rng m' = rng m \<and>
     model.more m' = model.more m"
  unfolding trail_frame_def by (cases m; cases m') auto

lemma trail_frame_refl: "trail_frame m m"
  by (simp add: trail_frame_iff)

lemma trail_frame_trans: "trail_frame m m' \<Longrightarrow> trail_frame m' m'' \<Longrightarrow> trail_frame m m''"
  by (simp add: trail_frame_iff)

lemma draw_frame: "trail_frame m (snd (draw m))"
  by (simp add: trail_frame_iff draw_def)

lemma random_random_frame: "random_random m = (r, m') \<Longrightarrow> trail_frame m m'"
  by (auto simp: trail_frame_iff random_random_def draw_def)

lemma random_choice_frame:
  "random_choice m xs = Inr (x, m') \<Longrightarrow> trail_frame m m' \<and> x \<in> set xs"
  by (auto simp: trail_frame_iff random_choice_def draw_def split: if_splits)

lemma add_or_reinforce_frame: "trail_frame m (add_or_reinforce_pheromone m p v t)"
  by (simp add: trail_frame_iff add_or_reinforce_pheromone_def next_id_def split: option.splits)

lemma fold_add_or_reinforce_frame:
  "trail_frame m m1 \<Longrightarrow> trail_frame m (fold (\<lambda>n acc. add_or_reinforce_pheromone acc n v t) ns m1)"
proof (induction ns arbitrary: m1)
  case Nil
  then show ?case by simp
next
  case (Cons n ns)
  have "trail_frame m (add_or_reinforce_pheromone m1 n v t)"
    using Cons.prems add_or_reinforce_frame trail_frame_trans by blast
  from Cons.IH[OF this] show ?case by simp
qed

lemma create_pheromone_frame: "trail_frame m (create_pheromone m p s t)"
  unfolding create_pheromone_def Let_def
  by (simp add: trail_frame_refl fold_add_or_reinforce_frame add_or_reinforce_frame)

lemma move_away_frame:
  "move_away_from_nest m a steps = Inr (p, m') \<Longrightarrow> trail_frame m m' \<and> p \<in> set steps"
  by (simp add: move_away_from_nest_random random_choice_frame)

lemma random_walk_frame:
  "random_walk m a steps = Inr (p, m') \<Longrightarrow> trail_frame m m' \<and> p \<in> set steps"
  unfolding random_walk_def
  by (auto split: option.splits prod.splits if_splits
        dest!: random_choice_frame random_random_frame intro: trail_frame_trans)

lemma fold_best_in:
  fixes f :: "'a \<Rightarrow> 'b \<times> 'a option \<Rightarrow> 'b \<times> 'a option"
  assumes "\<And>step acc. snd (f step acc) = Some step \<or> snd (f step acc) = snd acc"
      and "snd (fold f steps acc) = Some p"
  shows "p \<in> set steps \<or> snd acc = Some p"
  using assms(2)
proof (induction steps arbitrary: acc)
  case Nil
  then show ?case by simp
next
  case (Cons s ss)
  from Cons.IH[of "f s acc"] Cons.prems assms(1)[of s acc] show ?case by auto
qed

lemma closest_step_in:
  assumes "closest_step current d steps = Some p"
  shows "p \<in> set steps"
proof -
  from assms have "p \<in> set steps \<or> snd (Infinity, None :: pos option) = Some p"
    unfolding closest_step_def
    by - (erule fold_best_in[rotated], auto simp: Let_def split: prod.splits)
  then show ?thesis by simp
qed

lemma move_towards_in:
  assumes "move_towards m current target = Some p"
  shows "p \<in> set (get_neighborhood m current 1)"
proof -
  from assms have "p \<in> set (get_neighborhood m current 1) \<or> snd (Infinity, None :: pos option) = Some p"
    unfolding move_towards_def
    by - (erule fold_best_in[rotated], auto simp: Let_def split: prod.splits)
  then show ?thesis by simp
qed

lemma follow_frame:
  "follow_pheromones_or_explore m a current steps = Inr ((p, b), m')
   \<Longrightarrow> trail_frame m m' \<and> p \<in> set steps"
  unfolding follow_pheromones_or_explore_def Let_def
  by (auto split: option.splits prod.splits if_splits sum.splits
        dest!: random_walk_frame random_random_frame closest_step_in intro: trail_frame_trans)

lemma food_found_subset:
  "set food_cells \<subseteq> set steps \<Longrightarrow> set (food_found current steps cell food_cells) \<subseteq> set steps"
  by (auto simp: food_found_def)

lemma scan_food_subset: "set (scan_food m current steps) \<subseteq> set steps"
proof -
  have inner: "set (fold (\<lambda>agent. food_found current steps cell) fs acc) \<subseteq> set steps"
    if "set acc \<subseteq> set steps" for fs :: "food_agent list" and cell acc
    using that by (induction fs arbitrary: acc) (simp_all add: food_found_subset)
  have outer: "set (fold (\<lambda>cell food_cells.
             fold (\<lambda>agent. food_found current steps cell)
                  (filter (\<lambda>f. food_pos f = cell) (foods m)) food_cells) cells acc) \<subseteq> set steps"
    if "set acc \<subseteq> set steps" for cells acc
    using that by (induction cells arbitrary: acc) (simp_all add: inner)
  show ?thesis
    unfolding scan_food_def by (rule outer) simp
qed

lemma finish_move_result:
  assumes "finish_move m a current np = Inr (m', a')"
  shows "m' = m \<and> (\<exists>p. np = Some p \<and> pos a' = wrapped m p) \<and> unique_id a' = unique_id a \<and>
         home_pos a' = home_pos a \<and> carrying_food a' = carrying_food a"
proof (cases np)
  case None
  with assms show ?thesis
    by (simp add: finish_move_def)
next
  case (Some p)
  with assms have "m' = m"
    and "a' = a\<lparr>last_direction :=
                    (case last_direction a of
                       Some d \<Rightarrow> Some (fst p - fst current, snd p - snd current)
                     | None \<Rightarrow> Some (0, 0)),
                  pos := wrapped m p\<rparr>"
    by (auto simp: finish_move_def wrapped_def)
  with Some show ?thesis
    by simp
qed

lemma wrapped_frame: "trail_frame m m' \<Longrightarrow> wrapped m' p = wrapped m p"
  by (simp add: wrapped_def trail_frame_iff)

lemma get_neighborhood_cong:
  assumes "width m' = width m" "height m' = height m"
  shows "get_neighborhood m' p r = get_neighborhood m p r"
  unfolding get_neighborhood_def by (simp only: assms)

lemma get_neighborhood_frame: "trail_frame m m' \<Longrightarrow> get_neighborhood m' p r = get_neighborhood m p r"
  by (rule get_neighborhood_cong) (simp_all add: trail_frame_iff)

text \<open>
  The result of each branch of \<^const>\<open>move\<close>, and of \<^const>\<open>move\<close>: the model changes within the
  frame, and the ant keeps its identity, its nest and its load and lands on a wrapped
  neighbour of its cell.
\<close>

lemma finish_move_frame:
  assumes "finish_move m1 a1 (pos a) np = Inr (m', a')" "trail_frame m m1"
      "unique_id a1 = unique_id a" "home_pos a1 = home_pos a" "carrying_food a1 = carrying_food a"
      "\<And>p. np = Some p \<Longrightarrow> p \<in> set (get_neighborhood m (pos a) 1)"
  shows "trail_frame m m' \<and> unique_id a' = unique_id a \<and> home_pos a' = home_pos a \<and>
         carrying_food a' = carrying_food a \<and>
         pos a' \<in> wrapped m ` set (get_neighborhood m (pos a) 1)"
proof -
  from finish_move_result[OF assms(1)] obtain p where
    r: "m' = m1" "np = Some p" "pos a' = wrapped m1 p" "unique_id a' = unique_id a1"
       "home_pos a' = home_pos a1" "carrying_food a' = carrying_food a1"
    by blast
  from assms(6)[OF r(2)] have "p \<in> set (get_neighborhood m (pos a) 1)" .
  moreover have "wrapped m1 p = wrapped m p"
    using assms(2) by (rule wrapped_frame)
  ultimately show ?thesis
    using r assms(2-5) by simp
qed

lemma escape_move_result:
  assumes "escape_move m a = Inr (m', a')"
  shows "trail_frame m m' \<and> unique_id a' = unique_id a \<and> home_pos a' = home_pos a \<and>
         carrying_food a' = carrying_food a \<and>
         pos a' \<in> wrapped m ` set (get_neighborhood m (pos a) 1)"
proof -
  let ?steps = "get_neighborhood m (pos a) 1"
  let ?a1 = "a\<lparr>just_dropped_food := False,
               exploration_cooldown := max 0 (exploration_cooldown a - 1),
               following_pheromones := False\<rparr>"
  from assms obtain next_pos m1 where
    1: "move_away_from_nest m a ?steps = Inr (next_pos, m1)" and
    2: "finish_move (if returning_to_food ?a1 \<and> last_food_pos ?a1 \<noteq> None
                     then create_pheromone m1 (pos a) 1.0 to_food else m1)
          ?a1 (pos a) (Some next_pos) = Inr (m', a')"
    unfolding escape_move_def Let_def by (cases "move_away_from_nest m a ?steps") auto
  from move_away_frame[OF 1] have f1: "trail_frame m m1" and n: "next_pos \<in> set ?steps"
    by simp_all
  have "trail_frame m (if returning_to_food ?a1 \<and> last_food_pos ?a1 \<noteq> None
                     then create_pheromone m1 (pos a) 1.0 to_food else m1)"
    using f1 trail_frame_trans[OF f1 create_pheromone_frame] by simp
  from finish_move_frame[OF 2 this] n show ?thesis by simp
qed

lemma carry_move_result:
  assumes "carry_move m a = Inr (m', a')"
  shows "trail_frame m m' \<and> unique_id a' = unique_id a \<and> home_pos a' = home_pos a \<and>
         carrying_food a' = carrying_food a \<and>
         pos a' \<in> wrapped m ` set (get_neighborhood m (pos a) 1)"
proof -
  from assms have
    2: "finish_move (if euclid (pos a) (home_pos a) > 3
                     then create_pheromone m (pos a) 1.5 to_nest else m)
          (a\<lparr>following_pheromones := False\<rparr>) (pos a)
          (move_towards m (pos a) (home_pos a)) = Inr (m', a')"
    unfolding carry_move_def Let_def by simp
  have "trail_frame m (if euclid (pos a) (home_pos a) > 3
                     then create_pheromone m (pos a) 1.5 to_nest else m)"
    by (simp add: create_pheromone_frame trail_frame_refl)
  from finish_move_frame[OF 2 this] move_towards_in show ?thesis by simp
qed

lemma return_move_result:
  assumes "return_move m a = Inr (m', a')"
  shows "trail_frame m m' \<and> unique_id a' = unique_id a \<and> home_pos a' = home_pos a \<and>
         carrying_food a' = carrying_food a \<and>
         pos a' \<in> wrapped m ` set (get_neighborhood m (pos a) 1)"
proof (cases "Some (pos a) = last_food_pos a")
  case True
  let ?steps = "get_neighborhood m (pos a) 1"
  from True assms obtain next_pos m1 where
    1: "random_choice m ?steps = Inr (next_pos, m1)" and
    2: "finish_move m1 (a\<lparr>returning_to_food := False, following_pheromones := False\<rparr>)
          (pos a) (Some next_pos) = Inr (m', a')"
    unfolding return_move_def Let_def by (cases "random_choice m ?steps") auto
  from random_choice_frame[OF 1] have f: "trail_frame m m1" and n: "next_pos \<in> set ?steps"
    by simp_all
  from finish_move_frame[OF 2 f] n show ?thesis by simp
next
  case False
  with assms have
    2: "finish_move (create_pheromone m (pos a) 1.0 to_food) (a\<lparr>following_pheromones := False\<rparr>)
          (pos a) (case last_food_pos a of Some target \<Rightarrow> move_towards m (pos a) target | None \<Rightarrow> None)
        = Inr (m', a')"
    unfolding return_move_def Let_def by simp
  have "\<And>p. (case last_food_pos a of Some target \<Rightarrow> move_towards m (pos a) target | None \<Rightarrow> None) = Some p
          \<Longrightarrow> p \<in> set (get_neighborhood m (pos a) 1)"
    by (auto split: option.splits dest: move_towards_in)
  with finish_move_frame[OF 2 create_pheromone_frame] show ?thesis by simp
qed

lemma near_nest_draw_frame: "near_nest_draw m a = (near, m1) \<Longrightarrow> trail_frame m m1"
  unfolding near_nest_draw_def
  by (auto split: if_splits prod.splits dest: random_random_frame simp: trail_frame_refl)

lemma forage_move_result:
  assumes "forage_move m a = Inr (m', a')"
  shows "trail_frame m m' \<and> unique_id a' = unique_id a \<and> home_pos a' = home_pos a \<and>
         carrying_food a' = carrying_food a \<and>
         pos a' \<in> wrapped m ` set (get_neighborhood m (pos a) 1)"
proof (cases "scan_food m (pos a) (get_neighborhood m (pos a) 1) \<noteq> []")
  case True
  let ?steps = "get_neighborhood m (pos a) 1"
  from True have "forage_move m a =
      (case random_choice m (scan_food m (pos a) ?steps) of
         Inl e \<Rightarrow> Inl e
       | Inr (next_pos, m1) \<Rightarrow>
           finish_move m1 (a\<lparr>following_pheromones := False\<rparr>) (pos a) (Some next_pos))"
    by (simp add: forage_move_def Let_def)
  with assms obtain next_pos m1 where
    1: "random_choice m (scan_food m (pos a) ?steps) = Inr (next_pos, m1)" and
    2: "finish_move m1 (a\<lparr>following_pheromones := False\<rparr>) (pos a) (Some next_pos) = Inr (m', a')"
    by (auto split: sum.splits)
  from random_choice_frame[OF 1] scan_food_subset[of m "pos a" ?steps]
  have f: "trail_frame m m1" and n: "next_pos \<in> set ?steps"
    by auto
  from finish_move_frame[OF 2 f] n show ?thesis by simp
next
  case False
  let ?steps = "get_neighborhood m (pos a) 1"
  obtain near m1 where nm: "near_nest_draw m a = (near, m1)"
    by (cases "near_nest_draw m a") auto
  then have f1: "trail_frame m m1"
    by (rule near_nest_draw_frame)
  show ?thesis
  proof (cases near)
    case True
    with False nm have "forage_move m a =
      (case move_away_from_nest m1 a ?steps of
         Inl e \<Rightarrow> Inl e
       | Inr (next_pos, m2) \<Rightarrow>
           finish_move m2 (a\<lparr>following_pheromones := False\<rparr>) (pos a) (Some next_pos))"
      by (simp add: forage_move_def Let_def)
    with assms obtain next_pos m2 where
      1: "move_away_from_nest m1 a ?steps = Inr (next_pos, m2)" and
      2: "finish_move m2 (a\<lparr>following_pheromones := False\<rparr>) (pos a) (Some next_pos) = Inr (m', a')"
      by (auto split: sum.splits)
    from move_away_frame[OF 1] f1 have f: "trail_frame m m2" and n: "next_pos \<in> set ?steps"
      using trail_frame_trans by blast+
    from finish_move_frame[OF 2 f] n show ?thesis by simp
  next
    case nnear: False
    with False nm have "forage_move m a =
      (case follow_pheromones_or_explore m1 a (pos a) ?steps of
         Inl e \<Rightarrow> Inl e
       | Inr ((next_pos, is_following), m2) \<Rightarrow>
           finish_move m2 (a\<lparr>following_pheromones := is_following\<rparr>) (pos a) (Some next_pos))"
      by (simp add: forage_move_def Let_def)
    with assms obtain next_pos is_following m2 where
      1: "follow_pheromones_or_explore m1 a (pos a) ?steps = Inr ((next_pos, is_following), m2)" and
      2: "finish_move m2 (a\<lparr>following_pheromones := is_following\<rparr>) (pos a) (Some next_pos) = Inr (m', a')"
      by (auto split: sum.splits)
    from follow_frame[OF 1] f1 have f: "trail_frame m m2" and n: "next_pos \<in> set ?steps"
      using trail_frame_trans by blast+
    from finish_move_frame[OF 2 f] n show ?thesis by simp
  qed
qed

lemma move_result:
  assumes "move m a = Inr (m', a')"
  shows "trail_frame m m' \<and> unique_id a' = unique_id a \<and> home_pos a' = home_pos a \<and>
         carrying_food a' = carrying_food a \<and>
         pos a' \<in> wrapped m ` set (get_neighborhood m (pos a) 1)"
proof -
  from assms consider "escape_move m a = Inr (m', a')" | "carry_move m a = Inr (m', a')"
    | "return_move m a = Inr (m', a')" | "forage_move m a = Inr (m', a')"
    unfolding move_def by (auto split: if_splits)
  then show ?thesis
    by cases (rule escape_move_result carry_move_result return_move_result forage_move_result, assumption)+
qed

subsection \<open>Food accounting\<close>

lemma pick_up_food_model:
  "ants (fst (snd (pick_up_food m a))) = ants m"
  "total_food (fst (snd (pick_up_food m a))) = total_food m"
  "food_delivered (fst (snd (pick_up_food m a))) = food_delivered m"
  "pheromones (fst (snd (pick_up_food m a))) = pheromones m"
  "width (fst (snd (pick_up_food m a))) = width m"
  "height (fst (snd (pick_up_food m a))) = height m"
  "nest_pos (fst (snd (pick_up_food m a))) = nest_pos m"
  by (simp_all add: pick_up_food_def split: option.splits)

lemma pick_up_food_ant:
  "unique_id (snd (snd (pick_up_food m a))) = unique_id a"
  "home_pos (snd (snd (pick_up_food m a))) = home_pos a"
  "pos (snd (snd (pick_up_food m a))) = pos a"
  by (simp_all add: pick_up_food_def split: option.splits)

lemma length_remove1_in: "f \<in> set xs \<Longrightarrow> length (remove1 f xs) + 1 = length xs"
  by (induction xs) auto

lemma pick_up_food_True:
  assumes "fst (pick_up_food m a)"
  shows "\<not> carrying_food a \<and> carrying_food (snd (snd (pick_up_food m a))) \<and>
         last_food_pos (snd (snd (pick_up_food m a))) = Some (pos a) \<and>
         (\<exists>f. f \<in> set (foods m) \<and> food_pos f = pos a \<and>
              foods (fst (snd (pick_up_food m a))) = remove1 f (foods m)) \<and>
         length (foods (fst (snd (pick_up_food m a)))) + 1 = length (foods m)"
proof -
  from assms have nc: "\<not> carrying_food a"
    by (auto simp: pick_up_food_def split: if_splits)
  with assms obtain f where f: "List.find (\<lambda>f. food_pos f = pos a) (foods m) = Some f"
    by (cases "List.find (\<lambda>f. food_pos f = pos a) (foods m)") (auto simp: pick_up_food_def)
  then have fin: "f \<in> set (foods m)" "food_pos f = pos a"
    by (auto simp: find_Some_iff)
  have l: "length (remove1 f (foods m)) + 1 = length (foods m)"
    using fin(1) by (rule length_remove1_in)
  have r: "pick_up_food m a =
             (True, m\<lparr>foods := remove1 f (foods m)\<rparr>,
              a\<lparr>carrying_food := True, last_food_pos := Some (pos a)\<rparr>)"
    using nc f by (simp add: pick_up_food_def)
  show ?thesis
    unfolding r using nc fin l by auto
qed

lemma pick_up_food_False:
  assumes "\<not> fst (pick_up_food m a)"
  shows "snd (pick_up_food m a) = (m, a)"
proof (cases "carrying_food a")
  case True
  then show ?thesis
    by (simp add: pick_up_food_def)
next
  case False
  show ?thesis
  proof (cases "List.find (\<lambda>f. food_pos f = pos a) (foods m)")
    case None
    with False show ?thesis
      by (simp add: pick_up_food_def)
  next
    case (Some f)
    with False have "fst (pick_up_food m a)"
      by (simp add: pick_up_food_def)
    with assms show ?thesis
      by simp
  qed
qed

lemma pick_up_food_balance:
  "\<not> carrying_food a \<Longrightarrow>
   int (length (foods (fst (snd (pick_up_food m a)))))
     + (if carrying_food (snd (snd (pick_up_food m a))) then 1 else 0)
   = int (length (foods m))"
proof (cases "fst (pick_up_food m a)")
  case True
  from pick_up_food_True[OF True] show ?thesis by simp
next
  case False
  assume "\<not> carrying_food a"
  with pick_up_food_False[OF False] show ?thesis by simp
qed

lemma drop_food_at_nest_model:
  "ants (fst (snd (drop_food_at_nest m a))) = ants m"
  "total_food (fst (snd (drop_food_at_nest m a))) = total_food m"
  "foods (fst (snd (drop_food_at_nest m a))) = foods m"
  "pheromones (fst (snd (drop_food_at_nest m a))) = pheromones m"
  "width (fst (snd (drop_food_at_nest m a))) = width m"
  "height (fst (snd (drop_food_at_nest m a))) = height m"
  "nest_pos (fst (snd (drop_food_at_nest m a))) = nest_pos m"
  by (simp_all add: drop_food_at_nest_def Let_def)

lemma drop_food_at_nest_ant:
  "unique_id (snd (snd (drop_food_at_nest m a))) = unique_id a"
  "home_pos (snd (snd (drop_food_at_nest m a))) = home_pos a"
  "pos (snd (snd (drop_food_at_nest m a))) = pos a"
  by (simp_all add: drop_food_at_nest_def Let_def)

lemma drop_food_at_nest_balance:
  "food_delivered (fst (snd (drop_food_at_nest m a)))
     + (if carrying_food (snd (snd (drop_food_at_nest m a))) then 1 else 0)
   = food_delivered m + (if carrying_food a then 1 else 0)"
  by (simp add: drop_food_at_nest_def Let_def)

subsection \<open>Draws leave the trails alone\<close>

lemma rng_frame_iff:
  "rng_frame m m' \<longleftrightarrow>
     trail_frame m m' \<and> pheromones m' = pheromones m \<and> next_id_value m' = next_id_value m \<and>
     active_pheromones m' = active_pheromones m"
  unfolding rng_frame_def trail_frame_def by (cases m; cases m') auto

lemma rng_frame_refl: "rng_frame m m"
  by (simp add: rng_frame_iff trail_frame_refl)

lemma rng_frame_trans: "rng_frame m m' \<Longrightarrow> rng_frame m' m'' \<Longrightarrow> rng_frame m m''"
  using trail_frame_trans by (auto simp: rng_frame_iff)

lemma random_random_rng: "random_random m = (r, m') \<Longrightarrow> rng_frame m m'"
  by (auto simp: rng_frame_def random_random_def draw_def)

lemma random_choice_rng: "random_choice m xs = Inr (x, m') \<Longrightarrow> rng_frame m m'"
  by (auto simp: rng_frame_def random_choice_def draw_def split: if_splits)

lemma move_away_rng: "move_away_from_nest m a steps = Inr (p, m') \<Longrightarrow> rng_frame m m'"
  by (simp add: move_away_from_nest_random random_choice_rng)

lemma random_walk_rng: "random_walk m a steps = Inr (p, m') \<Longrightarrow> rng_frame m m'"
  unfolding random_walk_def
  by (auto split: option.splits prod.splits if_splits
        dest!: random_choice_rng random_random_rng intro: rng_frame_trans)

lemma follow_rng:
  "follow_pheromones_or_explore m a current steps = Inr ((p, b), m') \<Longrightarrow> rng_frame m m'"
  unfolding follow_pheromones_or_explore_def Let_def
  by (auto split: option.splits prod.splits if_splits sum.splits
        dest!: random_walk_rng random_random_rng intro: rng_frame_trans)

lemma near_nest_draw_rng: "near_nest_draw m a = (near, m1) \<Longrightarrow> rng_frame m m1"
  unfolding near_nest_draw_def
  by (auto split: if_splits prod.splits dest: random_random_rng simp: rng_frame_refl)

subsection \<open>One pass on a concrete state\<close>

lemma neighborhood_40:
  assumes "width m = 40" "height m = 40"
  shows "get_neighborhood m (x, y) 1 =
     filter (\<lambda>c. c \<noteq> (x, y))
       [((x - 1) mod 40, (y - 1) mod 40), ((x - 1) mod 40, y mod 40), ((x - 1) mod 40, (y + 1) mod 40),
        (x mod 40, (y - 1) mod 40), (x mod 40, y mod 40), (x mod 40, (y + 1) mod 40),
        ((x + 1) mod 40, (y - 1) mod 40), ((x + 1) mod 40, y mod 40), ((x + 1) mod 40, (y + 1) mod 40)]"
  by (simp add: get_neighborhood_def assms Let_def upto_m1_1)

lemma pass_model_fields:
  "width (pass_model r) = 40" "height (pass_model r) = 40" "nest_pos (pass_model r) = (20, 20)"
  "nest_unique_id (pass_model r) = 1" "ants (pass_model r) = [pass_ant]"
  "foods (pass_model r) = []" "pheromones (pass_model r) = [pass_pheromone]"
  "rng (pass_model r) = r" "rng_ix (pass_model r) = 0" "next_id_value (pass_model r) = 3"
  "to_food_evaporation (pass_model r) = 1 / 2" "to_nest_evaporation (pass_model r) = 9 / 10"
  by (simp_all add: pass_model_def example_model_def)

lemma pass_keys: "schedule_keys (pass_model r) = [1, 2, 3]"
  by (simp add: schedule_keys_def pass_model_fields pass_ant_def pass_pheromone_def)

lemma pass_shuffle_0:
  "shuffle (pass_model (\<lambda>i. 0)) [1, 2, 3 :: nat] = ([2, 3, 1], (pass_model (\<lambda>i. 0))\<lparr>rng_ix := 2\<rparr>)"
proof -
  have l: "length [1, 2, 3 :: nat] - 1 = Suc (Suc 0)"
    by simp
  show ?thesis
    unfolding shuffle_def l by (simp add: draw_def pass_model_fields Let_def)
qed

lemma pass_shuffle_1:
  "shuffle (pass_model (\<lambda>i. 1)) [1, 2, 3 :: nat] = ([1, 3, 2], (pass_model (\<lambda>i. 1))\<lparr>rng_ix := 2\<rparr>)"
proof -
  have l: "length [1, 2, 3 :: nat] - 1 = Suc (Suc 0)"
    by simp
  show ?thesis
    unfolding shuffle_def l by (simp add: draw_def pass_model_fields Let_def)
qed

lemma pass_deposit:
  assumes "width mm = 40" "height mm = 40" "nest_pos mm = (20, 20)"
      and "pheromones mm = [pass_pheromone\<lparr>strength := s\<rparr>]" "s + 1 / 4 \<le> 3"
  shows "create_pheromone mm (20, 25) 1 to_food
           = mm\<lparr>pheromones := [pass_pheromone\<lparr>strength := s + 1 / 4\<rparr>]\<rparr>"
proof -
  have e: "euclid (20, 25) (nest_pos mm) = 5"
    by (simp add: assms euclid_same_x)
  have c: "add_or_reinforce_pheromone mm (20, 25) (1 / 2) to_food
             = mm\<lparr>pheromones := [pass_pheromone\<lparr>strength := s + 1 / 4\<rparr>]\<rparr>"
    using assms(5) by (simp add: add_or_reinforce_pheromone_def assms(4) pass_pheromone_def)
  have n: "add_or_reinforce_pheromone (mm\<lparr>pheromones := [pass_pheromone\<lparr>strength := s + 1 / 4\<rparr>]\<rparr>)
             q (3 / 20) to_food
           = mm\<lparr>pheromones := [pass_pheromone\<lparr>strength := s + 1 / 4\<rparr>]\<rparr>"
    if "q \<noteq> (20, 25)" for q
    using that by (simp add: add_or_reinforce_pheromone_def pass_pheromone_def)
  have nb: "get_neighborhood mm (20, 25) 1 =
              [(19, 24), (19, 25), (19, 26), (20, 24), (20, 26), (21, 24), (21, 25), (21, 26)]"
    by (simp add: neighborhood_40[OF assms(1,2)])
  show ?thesis
    unfolding create_pheromone_def Let_def e nb
    by (simp add: c n)
qed

lemma pass_ant_step_0:
  assumes "width mm = 40" "height mm = 40" "nest_pos mm = (20, 20)" "foods mm = []"
      and "pheromones mm = [pass_pheromone\<lparr>strength := s\<rparr>]" "s + 1 / 4 \<le> 3"
      and "rng mm (rng_ix mm) = 0"
  shows "ant_step mm pass_ant =
           Inr (mm\<lparr>rng_ix := Suc (rng_ix mm), pheromones := [pass_pheromone\<lparr>strength := s + 1 / 4\<rparr>]\<rparr>,
                pass_ant\<lparr>exploration_cooldown := 0, last_direction := Some (- 1, - 1), pos := (19, 24)\<rparr>)"
proof -
  have nb: "get_neighborhood mm (20, 25) 1 =
              [(19, 24), (19, 25), (19, 26), (20, 24), (20, 26), (21, 24), (21, 25), (21, 26)]"
    by (simp add: neighborhood_40[OF assms(1,2)])
  have ch: "random_choice mm
              [(19, 24), (19, 25), (19, 26), (20, 24), (20, 26), (21, 24), (21, 25), (21, 26 :: int)]
            = Inr ((19, 24 :: int), mm\<lparr>rng_ix := Suc (rng_ix mm)\<rparr>)"
    by (simp add: random_choice_def draw_def assms(7))
  have dep: "create_pheromone (mm\<lparr>rng_ix := Suc (rng_ix mm)\<rparr>) (20, 25) 1 to_food
               = mm\<lparr>rng_ix := Suc (rng_ix mm), pheromones := [pass_pheromone\<lparr>strength := s + 1 / 4\<rparr>]\<rparr>"
    by (subst pass_deposit[where s = s]) (simp_all add: assms)
  have pu: "pick_up_food mm pass_ant = (False, mm, pass_ant)"
    by (simp add: pick_up_food_def assms(4))
  have esc: "escape_move mm pass_ant =
           Inr (mm\<lparr>rng_ix := Suc (rng_ix mm), pheromones := [pass_pheromone\<lparr>strength := s + 1 / 4\<rparr>]\<rparr>,
                pass_ant\<lparr>exploration_cooldown := 0, last_direction := Some (- 1, - 1), pos := (19, 24)\<rparr>)"
    unfolding escape_move_def Let_def move_away_from_nest_random
    by (simp add: pass_ant_def nb ch dep finish_move_def assms(1,2))
  have mv: "move mm pass_ant = escape_move mm pass_ant"
    by (simp add: move_def pass_ant_def)
  have nc: "\<not> carrying_food pass_ant"
       "\<not> carrying_food (pass_ant\<lparr>exploration_cooldown := 0, last_direction := Some (- 1, - 1), pos := (19, 24)\<rparr>)"
    by (simp_all add: pass_ant_def)
  show ?thesis
    unfolding ant_step_def Let_def by (simp add: nc pu mv esc)
qed

lemma pass_ant_step_1:
  assumes "width mm = 40" "height mm = 40" "nest_pos mm = (20, 20)" "foods mm = []"
      and "pheromones mm = [pass_pheromone\<lparr>strength := s\<rparr>]" "s + 1 / 4 \<le> 3"
      and "rng mm (rng_ix mm) = 1"
  shows "ant_step mm pass_ant =
           Inr (mm\<lparr>rng_ix := Suc (rng_ix mm), pheromones := [pass_pheromone\<lparr>strength := s + 1 / 4\<rparr>]\<rparr>,
                pass_ant\<lparr>exploration_cooldown := 0, last_direction := Some (- 1, 0), pos := (19, 25)\<rparr>)"
proof -
  have nb: "get_neighborhood mm (20, 25) 1 =
              [(19, 24), (19, 25), (19, 26), (20, 24), (20, 26), (21, 24), (21, 25), (21, 26)]"
    by (simp add: neighborhood_40[OF assms(1,2)])
  have ch: "random_choice mm
              [(19, 24), (19, 25), (19, 26), (20, 24), (20, 26), (21, 24), (21, 25), (21, 26 :: int)]
            = Inr ((19, 25 :: int), mm\<lparr>rng_ix := Suc (rng_ix mm)\<rparr>)"
    by (simp add: random_choice_def draw_def assms(7))
  have dep: "create_pheromone (mm\<lparr>rng_ix := Suc (rng_ix mm)\<rparr>) (20, 25) 1 to_food
               = mm\<lparr>rng_ix := Suc (rng_ix mm), pheromones := [pass_pheromone\<lparr>strength := s + 1 / 4\<rparr>]\<rparr>"
    by (subst pass_deposit[where s = s]) (simp_all add: assms)
  have pu: "pick_up_food mm pass_ant = (False, mm, pass_ant)"
    by (simp add: pick_up_food_def assms(4))
  have esc: "escape_move mm pass_ant =
           Inr (mm\<lparr>rng_ix := Suc (rng_ix mm), pheromones := [pass_pheromone\<lparr>strength := s + 1 / 4\<rparr>]\<rparr>,
                pass_ant\<lparr>exploration_cooldown := 0, last_direction := Some (- 1, 0), pos := (19, 25)\<rparr>)"
    unfolding escape_move_def Let_def move_away_from_nest_random
    by (simp add: pass_ant_def nb ch dep finish_move_def assms(1,2))
  have mv: "move mm pass_ant = escape_move mm pass_ant"
    by (simp add: move_def pass_ant_def)
  have nc: "\<not> carrying_food pass_ant"
       "\<not> carrying_food (pass_ant\<lparr>exploration_cooldown := 0, last_direction := Some (- 1, 0), pos := (19, 25)\<rparr>)"
    by (simp_all add: pass_ant_def)
  show ?thesis
    unfolding ant_step_def Let_def by (simp add: nc pu mv esc)
qed

lemma pass_agent_ant_0:
  assumes "width mm = 40" "height mm = 40" "nest_pos mm = (20, 20)" "foods mm = []"
      and "pheromones mm = [pass_pheromone\<lparr>strength := s\<rparr>]" "s + 1 / 4 \<le> 3"
      and "rng mm (rng_ix mm) = 0" "ants mm = [pass_ant]"
  shows "agent_step mm 2 =
           Inr (mm\<lparr>rng_ix := Suc (rng_ix mm), pheromones := [pass_pheromone\<lparr>strength := s + 1 / 4\<rparr>],
                   ants := [pass_ant\<lparr>exploration_cooldown := 0, last_direction := Some (- 1, - 1),
                                     pos := (19, 24)\<rparr>]\<rparr>)"
proof -
  have f: "List.find (\<lambda>a. unique_id a = 2) (ants mm) = Some pass_ant"
    by (simp add: assms(8) pass_ant_def)
  have u: "unique_id pass_ant = 2"
    by (simp add: pass_ant_def)
  show ?thesis
    unfolding agent_step_def f
    by (simp add: pass_ant_step_0[OF assms(1-7)] assms(8) u)
qed

lemma pass_agent_ant_1:
  assumes "width mm = 40" "height mm = 40" "nest_pos mm = (20, 20)" "foods mm = []"
      and "pheromones mm = [pass_pheromone\<lparr>strength := s\<rparr>]" "s + 1 / 4 \<le> 3"
      and "rng mm (rng_ix mm) = 1" "ants mm = [pass_ant]"
  shows "agent_step mm 2 =
           Inr (mm\<lparr>rng_ix := Suc (rng_ix mm), pheromones := [pass_pheromone\<lparr>strength := s + 1 / 4\<rparr>],
                   ants := [pass_ant\<lparr>exploration_cooldown := 0, last_direction := Some (- 1, 0),
                                     pos := (19, 25)\<rparr>]\<rparr>)"
proof -
  have f: "List.find (\<lambda>a. unique_id a = 2) (ants mm) = Some pass_ant"
    by (simp add: assms(8) pass_ant_def)
  have u: "unique_id pass_ant = 2"
    by (simp add: pass_ant_def)
  show ?thesis
    unfolding agent_step_def f
    by (simp add: pass_ant_step_1[OF assms(1-7)] assms(8) u)
qed

lemma pass_agent_pheromone:
  assumes "ants mm = [b]" "unique_id b = 2" "pheromones mm = [pass_pheromone\<lparr>strength := s\<rparr>]"
      and "to_food_evaporation mm = 1 / 2" "\<not> s * (1 / 2) < 0.05"
  shows "agent_step mm 3 = Inr (mm\<lparr>pheromones := [pass_pheromone\<lparr>strength := s * (1 / 2)\<rparr>]\<rparr>)"
proof -
  have f: "List.find (\<lambda>a. unique_id a = 3) (ants mm) = None"
    by (simp add: assms(1,2))
  have i: "3 \<in> ph_unique_id ` set (pheromones mm)"
    by (simp add: assms(3) pass_pheromone_def)
  have p: "pheromone_step mm 3 = mm\<lparr>pheromones := [pass_pheromone\<lparr>strength := s * (1 / 2)\<rparr>]\<rparr>"
    using assms(5)
    by (simp add: pheromone_step_def assms(3,4) pass_pheromone_def decayed_def evaporation_of_def)
  show ?thesis
    unfolding agent_step_def f using i by (simp add: p)
qed

lemma pass_agent_nest:
  assumes "ants mm = [b]" "unique_id b = 2" "pheromones mm = [p]" "ph_unique_id p = 3"
  shows "agent_step mm 1 = Inr mm"
  by (simp add: agent_step_def assms)

lemma pass_kinds:
  assumes "ants mm = [b]" "unique_id b = 2" "pheromones mm = [p]" "ph_unique_id p = 3"
  shows "kind_of mm 1 = IdleKind" "kind_of mm 2 = AntKind" "kind_of mm 3 = PheromoneKind"
  by (simp_all add: kind_of_def assms)

text \<open>
  The pass on the concrete state when every raw draw is 0: the shuffled order is ant,
  pheromone, nest; the ant reinforces the pheromone on its cell from 1 to 5/4 and the
  pheromone then decays to 5/8.
\<close>

lemma pass_0:
  "schedule_step (pass_model (\<lambda>i. 0)) =
     Inr ((pass_model (\<lambda>i. 0))
            \<lparr>rng_ix := 3, pheromones := [pass_pheromone\<lparr>strength := 5 / 8\<rparr>],
             ants := [pass_ant\<lparr>exploration_cooldown := 0, last_direction := Some (- 1, - 1),
                               pos := (19, 24)\<rparr>]\<rparr>)"
  "schedule_log (pass_model (\<lambda>i. 0)) = [(2, AntKind), (3, PheromoneKind), (1, IdleKind)]"
proof -
  define M2 where "M2 = (pass_model (\<lambda>i. 0))\<lparr>rng_ix := 2\<rparr>"
  define A where "A = pass_ant\<lparr>exploration_cooldown := 0, last_direction := Some (- 1, - 1),
                               pos := (19, 24)\<rparr>"
  define M3 where "M3 = M2\<lparr>rng_ix := Suc (rng_ix M2),
                            pheromones := [pass_pheromone\<lparr>strength := 1 + 1 / 4\<rparr>], ants := [A]\<rparr>"
  define M4 where "M4 = M3\<lparr>pheromones := [pass_pheromone\<lparr>strength := (1 + 1 / 4) * (1 / 2)\<rparr>]\<rparr>"
  have sh: "shuffle (pass_model (\<lambda>i. 0)) (schedule_keys (pass_model (\<lambda>i. 0))) = ([2, 3, 1], M2)"
    unfolding pass_keys M2_def by (rule pass_shuffle_0)
  have a: "agent_step M2 2 = Inr M3"
    unfolding M3_def A_def
    by (rule pass_agent_ant_0[where s = 1]) (simp_all add: M2_def pass_model_fields pass_pheromone_def)
  have b: "agent_step M3 3 = Inr M4"
    unfolding M4_def
    by (rule pass_agent_pheromone[where b = A])
       (simp_all add: M3_def A_def pass_ant_def M2_def pass_model_fields)
  have c: "agent_step M4 1 = Inr M4"
    by (rule pass_agent_nest[where b = A and p = "pass_pheromone\<lparr>strength := (1 + 1 / 4) * (1 / 2)\<rparr>"])
       (simp_all add: M4_def M3_def A_def pass_ant_def pass_pheromone_def)
  have k: "kind_of M2 2 = AntKind" "kind_of M3 3 = PheromoneKind" "kind_of M4 1 = IdleKind"
    by (simp_all add: kind_of_def M4_def M3_def M2_def A_def pass_ant_def pass_pheromone_def
          pass_model_fields)
  have run: "schedule_step (pass_model (\<lambda>i. 0)) = Inr M4"
    by (simp only: schedule_step_def sh Let_def prod.case activate_all.simps a b c sum.case)
  have lg: "schedule_log (pass_model (\<lambda>i. 0)) = [(2, AntKind), (3, PheromoneKind), (1, IdleKind)]"
    by (simp only: schedule_log_def sh Let_def prod.case activation_log.simps a b c sum.case k)
  show "schedule_step (pass_model (\<lambda>i. 0)) =
     Inr ((pass_model (\<lambda>i. 0))
            \<lparr>rng_ix := 3, pheromones := [pass_pheromone\<lparr>strength := 5 / 8\<rparr>],
             ants := [pass_ant\<lparr>exploration_cooldown := 0, last_direction := Some (- 1, - 1),
                               pos := (19, 24)\<rparr>]\<rparr>)"
    unfolding run by (simp add: M4_def M3_def M2_def A_def)
  show "schedule_log (pass_model (\<lambda>i. 0)) = [(2, AntKind), (3, PheromoneKind), (1, IdleKind)]"
    by (rule lg)
qed

text \<open>
  The same pass when every raw draw is 1: the shuffled order is nest, pheromone, ant; the
  pheromone decays from 1 to 1/2 first and the ant then reinforces it to 3/4.
\<close>

lemma pass_1:
  "schedule_step (pass_model (\<lambda>i. 1)) =
     Inr ((pass_model (\<lambda>i. 1))
            \<lparr>rng_ix := 3, pheromones := [pass_pheromone\<lparr>strength := 3 / 4\<rparr>],
             ants := [pass_ant\<lparr>exploration_cooldown := 0, last_direction := Some (- 1, 0),
                               pos := (19, 25)\<rparr>]\<rparr>)"
  "schedule_log (pass_model (\<lambda>i. 1)) = [(1, IdleKind), (3, PheromoneKind), (2, AntKind)]"
proof -
  define M2 where "M2 = (pass_model (\<lambda>i. 1))\<lparr>rng_ix := 2\<rparr>"
  define A where "A = pass_ant\<lparr>exploration_cooldown := 0, last_direction := Some (- 1, 0),
                               pos := (19, 25)\<rparr>"
  define M3 where "M3 = M2\<lparr>pheromones := [pass_pheromone\<lparr>strength := 1 * (1 / 2)\<rparr>]\<rparr>"
  define M4 where "M4 = M3\<lparr>rng_ix := Suc (rng_ix M3),
                            pheromones := [pass_pheromone\<lparr>strength := 1 * (1 / 2) + 1 / 4\<rparr>],
                            ants := [A]\<rparr>"
  have sh: "shuffle (pass_model (\<lambda>i. 1)) (schedule_keys (pass_model (\<lambda>i. 1))) = ([1, 3, 2], M2)"
    unfolding pass_keys M2_def by (rule pass_shuffle_1)
  have c: "agent_step M2 1 = Inr M2"
    by (rule pass_agent_nest[where b = pass_ant and p = pass_pheromone])
       (simp_all add: M2_def pass_model_fields pass_ant_def pass_pheromone_def)
  have b: "agent_step M2 3 = Inr M3"
    unfolding M3_def
    by (rule pass_agent_pheromone[where b = pass_ant])
       (simp_all add: M2_def pass_model_fields pass_ant_def pass_pheromone_def)
  have a: "agent_step M3 2 = Inr M4"
    unfolding M4_def A_def
    by (rule pass_agent_ant_1[where s = "1 * (1 / 2)"])
       (simp_all add: M3_def M2_def pass_model_fields)
  have k: "kind_of M2 1 = IdleKind" "kind_of M2 3 = PheromoneKind" "kind_of M3 2 = AntKind"
    by (simp_all add: kind_of_def M3_def M2_def pass_ant_def pass_pheromone_def pass_model_fields)
  have run: "schedule_step (pass_model (\<lambda>i. 1)) = Inr M4"
    by (simp only: schedule_step_def sh Let_def prod.case activate_all.simps a b c sum.case)
  have lg: "schedule_log (pass_model (\<lambda>i. 1)) = [(1, IdleKind), (3, PheromoneKind), (2, AntKind)]"
    by (simp only: schedule_log_def sh Let_def prod.case activation_log.simps a b c sum.case k)
  show "schedule_step (pass_model (\<lambda>i. 1)) =
     Inr ((pass_model (\<lambda>i. 1))
            \<lparr>rng_ix := 3, pheromones := [pass_pheromone\<lparr>strength := 3 / 4\<rparr>],
             ants := [pass_ant\<lparr>exploration_cooldown := 0, last_direction := Some (- 1, 0),
                               pos := (19, 25)\<rparr>]\<rparr>)"
    unfolding run by (simp add: M4_def M3_def M2_def A_def)
  show "schedule_log (pass_model (\<lambda>i. 1)) = [(1, IdleKind), (3, PheromoneKind), (2, AntKind)]"
    by (rule lg)
qed

text \<open>
  The claim C6 as stated, for the strength before and after the decay pass of a sub-step,
  fails: pheromones are scheduled agents and decay at their own place in the shuffled order of
  all agents, so a deposit of the same pass changes the result. On the concrete state the
  pheromone starts the pass with strength 1, its factor is 1/2, and it leaves the pass with
  strength 5/8, not 1/2.
\<close>

theorem decay_pass_counterexample:
  "pheromones (pass_model (\<lambda>i. 0)) = [pass_pheromone]
   \<and> pheromone_type pass_pheromone = to_food
   \<and> strength pass_pheromone * to_food_evaporation (pass_model (\<lambda>i. 0)) = 1 / 2
   \<and> schedule_step (pass_model (\<lambda>i. 0)) =
       Inr ((pass_model (\<lambda>i. 0))
              \<lparr>rng_ix := 3, pheromones := [pass_pheromone\<lparr>strength := 5 / 8\<rparr>],
               ants := [pass_ant\<lparr>exploration_cooldown := 0, last_direction := Some (- 1, - 1),
                                 pos := (19, 24)\<rparr>]\<rparr>)
   \<and> strength (pass_pheromone\<lparr>strength := 5 / 8\<rparr>)
        \<noteq> strength pass_pheromone * to_food_evaporation (pass_model (\<lambda>i. 0))"
  by (simp add: pass_0(1) pass_model_fields pass_pheromone_def)

subsection \<open>The generators of a run\<close>

lemma example_config_init:
  "AntColonyModel_init example_config r (f, k) =
     Some (Inr ((blank_model example_config r)
       \<lparr>to_nest_evaporation := max 0.01 (min 0.999 (0.05 powr (1 / 100))),
        to_food_evaporation := max 0.01 (min 0.999 (0.05 powr (1 / 60))),
        nest_pos := (20, 20), next_id_value := 2, nest_unique_id := 1,
        ants := [\<lparr>unique_id = 2,
                  pos = ((20 + (- 5 + int (r 0 mod 11))) mod 40, (20 + (- 5 + int (r 1 mod 11))) mod 40),
                  home_pos = (20, 20), carrying_food = False,
                  direction = f k mod 8, last_direction = None, last_food_pos = None,
                  returning_to_food = False, following_pheromones = False,
                  just_dropped_food = False, exploration_cooldown = 0\<rparr>],
        rng_ix := 2\<rparr>))"
proof -
  have b: "width (blank_model example_config r) = 40" "height (blank_model example_config r) = 40"
    "n_ants (blank_model example_config r) = 1" "simulation_speed (blank_model example_config r) = 1"
    "steps_per_second (blank_model example_config r) = 10"
    "to_nest_lifespan (blank_model example_config r) = 10"
    "to_food_lifespan (blank_model example_config r) = 6"
    "next_id_value (blank_model example_config r) = 0" "ants (blank_model example_config r) = []"
    "rng (blank_model example_config r) = r" "rng_ix (blank_model example_config r) = 0"
    by (simp_all add: blank_model_def example_config_def)
  have l1: "lifespan_to_evaporation (blank_model example_config r) 10
              = Inr (max 0.01 (min 0.999 (0.05 powr (1 / 100))))"
    by (simp add: lifespan_to_evaporation_def b Let_def)
  have l2: "lifespan_to_evaporation (blank_model example_config r) 6
              = Inr (max 0.01 (min 0.999 (0.05 powr (1 / 60))))"
    by (simp add: lifespan_to_evaporation_def b Let_def)
  have n: "nat (cfg_n_food_piles example_config) = 0"
    by (simp add: example_config_def)
  have one: "nat 1 = Suc 0"
    by simp
  show ?thesis
    unfolding AntColonyModel_init_def Let_def b l1 l2 n
    by (simp add: b one next_id_def add_ant_def AntAgent_init_def np_random_randint_def
          random_randint_def draw_def Let_def)
qed

text \<open>
  Claim C3 at a failing input. Two constructions with the same configuration and the same
  engine generator (the same seed), with NumPy's global generator, which the seed does not
  reach, in two different states: the ant is placed on the same cell both times, but its
  \<^verbatim>\<open>direction\<close>, drawn by \<^verbatim>\<open>np.random.randint(8)\<close> in \<^verbatim>\<open>AntAgent.__init__\<close>, is 3 in one
  run and 5 in the other.
\<close>

theorem numpy_direction_failing_input:
  "map_option (map_sum id (\<lambda>m. map direction (ants m)))
     (AntColonyModel_init example_config (\<lambda>i. 0) (\<lambda>i. 3, 0)) = Some (Inr [3])
   \<and> map_option (map_sum id (\<lambda>m. map direction (ants m)))
     (AntColonyModel_init example_config (\<lambda>i. 0) (\<lambda>i. 5, 0)) = Some (Inr [5])
   \<and> map_option (map_sum id (\<lambda>m. map pos (ants m)))
     (AntColonyModel_init example_config (\<lambda>i. 0) (\<lambda>i. 3, 0)) = Some (Inr [(15, 15)])
   \<and> map_option (map_sum id (\<lambda>m. map pos (ants m)))
     (AntColonyModel_init example_config (\<lambda>i. 0) (\<lambda>i. 5, 0)) = Some (Inr [(15, 15)])"
  by (simp add: example_config_init)

lemma trail_step_same: "rng_frame m m' \<Longrightarrow> trail_step m p m'"
  by (simp add: trail_step_def rng_frame_iff)

lemma rng_frame_same_trails: "rng_frame m m' \<Longrightarrow> same_trails m m'"
  by (simp add: rng_frame_iff trail_frame_iff same_trails_def)

lemma trail_step_deposit:
  "rng_frame m m1 \<Longrightarrow> s = 1 \<or> s = 3 / 2 \<Longrightarrow> trail_step m p (create_pheromone m1 p s t)"
  unfolding trail_step_def using rng_frame_same_trails by blast

lemma trail_step_transfer:
  assumes "trail_step m1 p m2" "same_trails m m1"
      and "pheromones m' = pheromones m2" "next_id_value m' = next_id_value m2"
  shows "trail_step m p m'"
proof -
  from assms(1) consider
    (same) "pheromones m2 = pheromones m1" "next_id_value m2 = next_id_value m1"
    | (dep) mm s t where "same_trails m1 mm" "s = 1 \<or> s = 3 / 2"
        "pheromones m2 = pheromones (create_pheromone mm p s t)"
        "next_id_value m2 = next_id_value (create_pheromone mm p s t)"
    unfolding trail_step_def by blast
  then show ?thesis
  proof cases
    case same
    with assms(2-) show ?thesis
      by (simp add: trail_step_def same_trails_def)
  next
    case dep
    from dep(1) assms(2) have "same_trails m mm"
      by (simp add: same_trails_def)
    with dep(2-) assms(3,4) show ?thesis
      unfolding trail_step_def by metis
  qed
qed

lemma finish_move_model: "finish_move m a current np = Inr (m', a') \<Longrightarrow> m' = m"
  using finish_move_result by blast

lemma escape_move_trail:
  assumes "escape_move m a = Inr (m', a')"
  shows "trail_step m (pos a) m'"
proof -
  let ?steps = "get_neighborhood m (pos a) 1"
  let ?a1 = "a\<lparr>just_dropped_food := False,
               exploration_cooldown := max 0 (exploration_cooldown a - 1),
               following_pheromones := False\<rparr>"
  from assms obtain next_pos m1 where
    1: "move_away_from_nest m a ?steps = Inr (next_pos, m1)" and
    2: "finish_move (if returning_to_food ?a1 \<and> last_food_pos ?a1 \<noteq> None
                     then create_pheromone m1 (pos a) 1.0 to_food else m1)
          ?a1 (pos a) (Some next_pos) = Inr (m', a')"
    unfolding escape_move_def Let_def by (cases "move_away_from_nest m a ?steps") auto
  from move_away_rng[OF 1] have f1: "rng_frame m m1" .
  have m'eq: "m' = (if returning_to_food ?a1 \<and> last_food_pos ?a1 \<noteq> None
                    then create_pheromone m1 (pos a) 1.0 to_food else m1)"
    using finish_move_model[OF 2] .
  show ?thesis
  proof (cases "returning_to_food a \<and> last_food_pos a \<noteq> None")
    case True
    have "m' = create_pheromone m1 (pos a) 1 to_food"
      using m'eq True by simp
    then show ?thesis
      using trail_step_deposit[OF f1, of 1 "pos a" to_food] by simp
  next
    case False
    then have c: "\<not> (returning_to_food ?a1 \<and> last_food_pos ?a1 \<noteq> None)"
      by simp
    have "m' = m1"
      using m'eq unfolding if_not_P[OF c] .
    then show ?thesis
      using trail_step_same[OF f1] by simp
  qed
qed

lemma carry_move_trail:
  assumes "carry_move m a = Inr (m', a')"
  shows "trail_step m (pos a) m'"
proof -
  from assms have
    2: "finish_move (if euclid (pos a) (home_pos a) > 3
                     then create_pheromone m (pos a) 1.5 to_nest else m)
          (a\<lparr>following_pheromones := False\<rparr>) (pos a)
          (move_towards m (pos a) (home_pos a)) = Inr (m', a')"
    unfolding carry_move_def Let_def by simp
  from finish_move_model[OF 2]
  have "m' = (if euclid (pos a) (home_pos a) > 3
              then create_pheromone m (pos a) 1.5 to_nest else m)" .
  then consider "m' = create_pheromone m (pos a) (3 / 2) to_nest" | "m' = m"
    by (cases "euclid (pos a) (home_pos a) > 3") simp_all
  then show ?thesis
  proof cases
    case 1
    show ?thesis unfolding 1 by (rule trail_step_deposit[OF rng_frame_refl]) simp
  next
    case 2
    show ?thesis unfolding 2 by (rule trail_step_same[OF rng_frame_refl])
  qed
qed

lemma return_move_trail:
  assumes "return_move m a = Inr (m', a')"
  shows "trail_step m (pos a) m'"
proof (cases "Some (pos a) = last_food_pos a")
  case True
  let ?steps = "get_neighborhood m (pos a) 1"
  from True assms obtain next_pos m1 where
    1: "random_choice m ?steps = Inr (next_pos, m1)" and
    2: "finish_move m1 (a\<lparr>returning_to_food := False, following_pheromones := False\<rparr>)
          (pos a) (Some next_pos) = Inr (m', a')"
    unfolding return_move_def Let_def by (cases "random_choice m ?steps") auto
  from finish_move_model[OF 2] random_choice_rng[OF 1] show ?thesis
    by (simp add: trail_step_same)
next
  case False
  with assms have
    2: "finish_move (create_pheromone m (pos a) 1.0 to_food) (a\<lparr>following_pheromones := False\<rparr>)
          (pos a) (case last_food_pos a of Some target \<Rightarrow> move_towards m (pos a) target | None \<Rightarrow> None)
        = Inr (m', a')"
    unfolding return_move_def Let_def by simp
  from finish_move_model[OF 2] have "m' = create_pheromone m (pos a) 1 to_food"
    by simp
  then show ?thesis
    using trail_step_deposit[OF rng_frame_refl, of 1 m "pos a" to_food] by simp
qed

lemma forage_move_trail:
  assumes "forage_move m a = Inr (m', a')"
  shows "rng_frame m m'"
proof (cases "scan_food m (pos a) (get_neighborhood m (pos a) 1) \<noteq> []")
  case True
  let ?steps = "get_neighborhood m (pos a) 1"
  from True have "forage_move m a =
      (case random_choice m (scan_food m (pos a) ?steps) of
         Inl e \<Rightarrow> Inl e
       | Inr (next_pos, m1) \<Rightarrow>
           finish_move m1 (a\<lparr>following_pheromones := False\<rparr>) (pos a) (Some next_pos))"
    by (simp add: forage_move_def Let_def)
  with assms obtain next_pos m1 where
    1: "random_choice m (scan_food m (pos a) ?steps) = Inr (next_pos, m1)" and
    2: "finish_move m1 (a\<lparr>following_pheromones := False\<rparr>) (pos a) (Some next_pos) = Inr (m', a')"
    by (auto split: sum.splits)
  from finish_move_model[OF 2] random_choice_rng[OF 1] show ?thesis by simp
next
  case False
  let ?steps = "get_neighborhood m (pos a) 1"
  obtain near m1 where nm: "near_nest_draw m a = (near, m1)"
    by (cases "near_nest_draw m a") auto
  then have f1: "rng_frame m m1"
    by (rule near_nest_draw_rng)
  show ?thesis
  proof (cases near)
    case True
    with False nm have "forage_move m a =
      (case move_away_from_nest m1 a ?steps of
         Inl e \<Rightarrow> Inl e
       | Inr (next_pos, m2) \<Rightarrow>
           finish_move m2 (a\<lparr>following_pheromones := False\<rparr>) (pos a) (Some next_pos))"
      by (simp add: forage_move_def Let_def)
    with assms obtain next_pos m2 where
      1: "move_away_from_nest m1 a ?steps = Inr (next_pos, m2)" and
      2: "finish_move m2 (a\<lparr>following_pheromones := False\<rparr>) (pos a) (Some next_pos) = Inr (m', a')"
      by (auto split: sum.splits)
    from finish_move_model[OF 2] rng_frame_trans[OF f1 move_away_rng[OF 1]] show ?thesis by simp
  next
    case nnear: False
    with False nm have "forage_move m a =
      (case follow_pheromones_or_explore m1 a (pos a) ?steps of
         Inl e \<Rightarrow> Inl e
       | Inr ((next_pos, is_following), m2) \<Rightarrow>
           finish_move m2 (a\<lparr>following_pheromones := is_following\<rparr>) (pos a) (Some next_pos))"
      by (simp add: forage_move_def Let_def)
    with assms obtain next_pos is_following m2 where
      1: "follow_pheromones_or_explore m1 a (pos a) ?steps = Inr ((next_pos, is_following), m2)" and
      2: "finish_move m2 (a\<lparr>following_pheromones := is_following\<rparr>) (pos a) (Some next_pos) = Inr (m', a')"
      by (auto split: sum.splits)
    from finish_move_model[OF 2] rng_frame_trans[OF f1 follow_rng[OF 1]] show ?thesis by simp
  qed
qed

lemma move_trail:
  assumes "move m a = Inr (m', a')"
  shows "trail_step m (pos a) m'"
proof -
  from assms consider "escape_move m a = Inr (m', a')" | "carry_move m a = Inr (m', a')"
    | "return_move m a = Inr (m', a')" | "forage_move m a = Inr (m', a')"
    unfolding move_def by (auto split: if_splits)
  then show ?thesis
    by cases (auto intro: escape_move_trail carry_move_trail return_move_trail
                          trail_step_same forage_move_trail)
qed

subsection \<open>One ant's turn\<close>

lemma pick_up_food_next_id:
  "next_id_value (fst (snd (pick_up_food m a))) = next_id_value m"
  by (simp add: pick_up_food_def split: option.splits)

lemma drop_food_at_nest_next_id:
  "next_id_value (fst (snd (drop_food_at_nest m a))) = next_id_value m"
  by (simp add: drop_food_at_nest_def Let_def)

lemma ant_step_unfold:
  "ant_step m a =
     (case move (fst (if \<not> carrying_food a then snd (pick_up_food m a) else (m, a)))
                (snd (if \<not> carrying_food a then snd (pick_up_food m a) else (m, a))) of
        Inl e \<Rightarrow> Inl e
      | Inr r \<Rightarrow>
          Inr (if carrying_food (snd r) then snd (drop_food_at_nest (fst r) (snd r)) else r))"
  unfolding ant_step_def Let_def case_prod_beta
  by (rule sum.case_cong) simp_all

lemma ant_step_result:
  assumes "ant_step m a = Inr (m', a')"
  shows "ants m' = ants m" "total_food m' = total_food m" "width m' = width m"
        "height m' = height m" "nest_pos m' = nest_pos m"
        "unique_id a' = unique_id a" "home_pos a' = home_pos a"
        "int (length (foods m')) + food_delivered m' + (if carrying_food a' then 1 else 0)
           = int (length (foods m)) + food_delivered m + (if carrying_food a then 1 else 0)"
        "pos a' \<in> wrapped m ` set (get_neighborhood m (pos a) 1)"
        "trail_step m (pos a) m'"
proof -
  define pm where "pm = (if \<not> carrying_food a then snd (pick_up_food m a) else (m, a))"
  define m1 a1 where "m1 = fst pm" and "a1 = snd pm"
  have pf: "ants m1 = ants m" "total_food m1 = total_food m" "width m1 = width m"
      "height m1 = height m" "nest_pos m1 = nest_pos m" "pheromones m1 = pheromones m"
      "food_delivered m1 = food_delivered m" "next_id_value m1 = next_id_value m"
      "unique_id a1 = unique_id a" "home_pos a1 = home_pos a" "pos a1 = pos a"
    unfolding m1_def a1_def pm_def
    by (simp_all add: pick_up_food_model pick_up_food_ant pick_up_food_next_id)
  have pb: "int (length (foods m1)) + (if carrying_food a1 then 1 else 0)
              = int (length (foods m)) + (if carrying_food a then 1 else 0)"
  proof (cases "carrying_food a")
    case True
    then show ?thesis
      unfolding m1_def a1_def pm_def by simp
  next
    case False
    from pick_up_food_balance[OF False, of m] False show ?thesis
      unfolding m1_def a1_def pm_def by simp
  qed
  from assms obtain r where mv: "move m1 a1 = Inr r"
    and fin: "(m', a') = (if carrying_food (snd r) then snd (drop_food_at_nest (fst r) (snd r)) else r)"
    unfolding ant_step_unfold m1_def a1_def pm_def
    by (cases "move (fst (if \<not> carrying_food a then snd (pick_up_food m a) else (m, a)))
                (snd (if \<not> carrying_food a then snd (pick_up_food m a) else (m, a)))") auto
  obtain m2 a2 where r: "r = (m2, a2)"
    by (cases r) auto
  note M = move_result[OF mv[unfolded r]]
  note T = move_trail[OF mv[unfolded r]]
  from M have mf: "ants m2 = ants m1" "total_food m2 = total_food m1" "width m2 = width m1"
      "height m2 = height m1" "nest_pos m2 = nest_pos m1" "foods m2 = foods m1"
      "food_delivered m2 = food_delivered m1"
    by (simp_all add: trail_frame_iff)
  from M have af: "unique_id a2 = unique_id a1" "home_pos a2 = home_pos a1"
      "carrying_food a2 = carrying_food a1"
      "pos a2 \<in> wrapped m1 ` set (get_neighborhood m1 (pos a1) 1)"
    by simp_all
  have m'eq: "m' = (if carrying_food a2 then fst (snd (drop_food_at_nest m2 a2)) else m2)"
    and a'eq: "a' = (if carrying_food a2 then snd (snd (drop_food_at_nest m2 a2)) else a2)"
    using fin unfolding r by (cases "carrying_food a2"; simp add: prod_eq_iff)+
  have df: "ants m' = ants m2" "total_food m' = total_food m2" "width m' = width m2"
      "height m' = height m2" "nest_pos m' = nest_pos m2" "foods m' = foods m2"
      "pheromones m' = pheromones m2" "next_id_value m' = next_id_value m2"
      "unique_id a' = unique_id a2" "home_pos a' = home_pos a2" "pos a' = pos a2"
    unfolding m'eq a'eq
    by (simp_all add: drop_food_at_nest_model drop_food_at_nest_ant drop_food_at_nest_next_id)
  have db: "food_delivered m' + (if carrying_food a' then 1 else 0)
              = food_delivered m2 + (if carrying_food a2 then 1 else 0)"
    unfolding m'eq a'eq using drop_food_at_nest_balance[of m2 a2]
    by (cases "carrying_food a2") simp_all
  show "ants m' = ants m" "total_food m' = total_food m" "width m' = width m"
        "height m' = height m" "nest_pos m' = nest_pos m"
        "unique_id a' = unique_id a" "home_pos a' = home_pos a"
    using pf mf af df by simp_all
  show "int (length (foods m')) + food_delivered m' + (if carrying_food a' then 1 else 0)
           = int (length (foods m)) + food_delivered m + (if carrying_food a then 1 else 0)"
    using pb db pf mf af df by simp
  have w: "wrapped m1 = wrapped m"
    using pf by (simp add: wrapped_def fun_eq_iff)
  have g: "get_neighborhood m1 (pos a) 1 = get_neighborhood m (pos a) 1"
    using pf by (intro get_neighborhood_cong) simp_all
  show "pos a' \<in> wrapped m ` set (get_neighborhood m (pos a) 1)"
    using af(4) df(11) pf(11) w g by simp
  have st: "same_trails m m1"
    using pf by (simp add: same_trails_def)
  from trail_step_transfer[OF T st df(7,8)] show "trail_step m (pos a) m'"
    using pf(11) by simp
qed

subsection \<open>One activation\<close>

lemma agent_step_cases:
  assumes "agent_step m uid = Inr m'"
  obtains (ant) a m1 a' where "a \<in> set (ants m)" "unique_id a = uid" "ant_step m a = Inr (m1, a')"
      "m' = m1\<lparr>ants := map (\<lambda>b. if unique_id b = uid then a' else b) (ants m1)\<rparr>"
  | (pheromone) "uid \<notin> unique_id ` set (ants m)" "uid \<in> ph_unique_id ` set (pheromones m)"
      "m' = pheromone_step m uid"
  | (idle) "uid \<notin> unique_id ` set (ants m)" "uid \<notin> ph_unique_id ` set (pheromones m)" "m' = m"
proof (cases "List.find (\<lambda>a. unique_id a = uid) (ants m)")
  case None
  then have n: "uid \<notin> unique_id ` set (ants m)"
    by (auto simp: find_None_iff)
  show ?thesis
  proof (cases "uid \<in> ph_unique_id ` set (pheromones m)")
    case True
    with None assms have "m' = pheromone_step m uid"
      by (simp add: agent_step_def)
    with n True show ?thesis
      by (rule pheromone)
  next
    case False
    with None assms have "m' = m"
      by (simp add: agent_step_def)
    with n False show ?thesis
      by (rule idle)
  qed
next
  case (Some a)
  then have a: "a \<in> set (ants m)" "unique_id a = uid"
    by (auto simp: find_Some_iff)
  from Some assms obtain r where r: "ant_step m a = Inr r"
    and m': "m' = (fst r)\<lparr>ants := map (\<lambda>b. if unique_id b = uid then snd r else b) (ants (fst r))\<rparr>"
    by (cases "ant_step m a") (auto simp: agent_step_def split: prod.splits)
  show ?thesis
    by (rule ant[OF a, of "fst r" "snd r"]) (simp_all add: r m')
qed

lemma replace_ids:
  "unique_id a' = uid \<Longrightarrow>
   map unique_id (map (\<lambda>b. if unique_id b = uid then a' else b) as) = map unique_id as"
  by (induction as) auto

lemma length_filter_sum:
  "int (length (filter P xs)) = (\<Sum>x\<leftarrow>xs. if P x then 1 else 0)"
  by (induction xs) auto

lemma replace_sum:
  fixes f :: "ant_agent \<Rightarrow> int"
  assumes "distinct (map unique_id as)" "a \<in> set as"
  shows "(\<Sum>x\<leftarrow>map (\<lambda>b. if unique_id b = unique_id a then a' else b) as. f x) + f a
           = (\<Sum>x\<leftarrow>as. f x) + f a'"
  using assms
proof (induction as)
  case Nil
  then show ?case by simp
next
  case (Cons b bs)
  show ?case
  proof (cases "b = a")
    case True
    with Cons.prems have "unique_id a \<notin> unique_id ` set bs"
      by simp
    then have "map (\<lambda>b. if unique_id b = unique_id a then a' else b) bs = bs"
      by (induction bs) auto
    with True show ?thesis
      by simp
  next
    case False
    with Cons.prems have in_bs: "a \<in> set bs" and d: "distinct (map unique_id bs)"
      and nb: "unique_id b \<notin> unique_id ` set bs"
      by auto
    from in_bs nb have ne: "unique_id b \<noteq> unique_id a"
      by auto
    from Cons.IH[OF d in_bs] ne show ?thesis
      by simp
  qed
qed

lemma replace_carrying:
  fixes as :: "ant_agent list"
  assumes "distinct (map unique_id as)" "a \<in> set as" "unique_id a' = unique_id a"
  shows "int (length (filter carrying_food (map (\<lambda>b. if unique_id b = unique_id a then a' else b) as)))
           + (if carrying_food a then 1 else 0)
         = int (length (filter carrying_food as)) + (if carrying_food a' then 1 else 0)"
  unfolding length_filter_sum
  using replace_sum[OF assms(1,2), of "\<lambda>x. if carrying_food x then 1 else 0" a'] by simp

lemma pheromone_step_colony:
  "ants (pheromone_step m uid) = ants m" "foods (pheromone_step m uid) = foods m"
  "food_delivered (pheromone_step m uid) = food_delivered m"
  "total_food (pheromone_step m uid) = total_food m"
  "width (pheromone_step m uid) = width m" "height (pheromone_step m uid) = height m"
  "nest_pos (pheromone_step m uid) = nest_pos m"
  by (simp_all add: pheromone_step_def)

lemma agent_step_balance:
  assumes "food_balance m" "agent_step m uid = Inr m'"
  shows "food_balance m'"
  using assms(2)
proof (cases rule: agent_step_cases)
  case (ant a m1 a')
  note R = ant_step_result[OF ant(3)]
  have ids: "map unique_id (ants m') = map unique_id (ants m)"
    unfolding ant(4) using R(1,6) ant(2) by (simp add: replace_ids)
  have d: "distinct (map unique_id (ants m))"
    using assms(1) by (simp add: food_balance_def)
  have c: "carrying_ants m' + (if carrying_food a then 1 else 0)
             = carrying_ants m + (if carrying_food a' then 1 else 0)"
    unfolding carrying_ants_def ant(4)
    using replace_carrying[OF d ant(1) R(6)] R(1) ant(2) by simp
  have f: "foods m' = foods m1" "food_delivered m' = food_delivered m1" "total_food m' = total_food m1"
    unfolding ant(4) by simp_all
  from assms(1) R(2,8) c f ids d show ?thesis
    unfolding food_balance_def by simp
next
  case pheromone
  with assms(1) show ?thesis
    by (simp add: food_balance_def carrying_ants_def pheromone_step_colony)
next
  case idle
  with assms(1) show ?thesis
    by simp
qed

subsection \<open>Passes, ticks and runs\<close>

lemma rng_frame_same_colony: "rng_frame m m' \<Longrightarrow> same_colony m m'"
  by (simp add: rng_frame_iff trail_frame_iff same_colony_def)

lemma draw_rng: "rng_frame m (snd (draw m))"
  by (simp add: rng_frame_def draw_def)

lemma shuffle_loop_rng: "rng_frame m (snd (shuffle_loop k m xs))"
proof (induction k arbitrary: m xs)
  case 0
  show ?case by (simp add: rng_frame_refl)
next
  case (Suc k)
  have "snd (shuffle_loop (Suc k) m xs) =
          snd (shuffle_loop k (snd (draw m))
                 (xs[Suc k := xs ! (fst (draw m) mod (Suc k + 1)),
                     fst (draw m) mod (Suc k + 1) := xs ! Suc k]))"
    by (simp add: Let_def split: prod.splits)
  with Suc.IH[of "snd (draw m)"] draw_rng[of m] show ?case
    by (metis rng_frame_trans)
qed

lemma shuffle_rng: "rng_frame m (snd (shuffle m xs))"
  by (simp add: shuffle_def shuffle_loop_rng)

lemma activate_all_preserves:
  assumes ag: "\<And>m uid m'. I m \<Longrightarrow> agent_step m uid = Inr m' \<Longrightarrow> I m'"
      and "I m" "activate_all m ks = Inr m'"
  shows "I m'"
  using assms(2,3)
proof (induction ks arbitrary: m)
  case Nil
  then show ?case by simp
next
  case (Cons k ks)
  from Cons.prems(2) obtain m1 where 1: "agent_step m k = Inr m1" and 2: "activate_all m1 ks = Inr m'"
    by (cases "agent_step m k") auto
  from Cons.IH[OF ag[OF Cons.prems(1) 1] 2] show ?case .
qed

lemma schedule_step_preserves:
  assumes ag: "\<And>m uid m'. I m \<Longrightarrow> agent_step m uid = Inr m' \<Longrightarrow> I m'"
      and sc: "\<And>m m'. I m \<Longrightarrow> same_colony m m' \<Longrightarrow> I m'"
      and "I m" "schedule_step m = Inr m'"
  shows "I m'"
proof -
  from assms(4) have a: "activate_all (snd (shuffle m (schedule_keys m))) (fst (shuffle m (schedule_keys m))) = Inr m'"
    by (simp add: schedule_step_def split: prod.splits)
  have i: "I (snd (shuffle m (schedule_keys m)))"
    using sc[OF assms(3) rng_frame_same_colony[OF shuffle_rng]] .
  show ?thesis
    by (rule activate_all_preserves[where I = I, OF _ i a]) (rule ag)
qed

lemma sub_steps_preserves:
  assumes ag: "\<And>m uid m'. I m \<Longrightarrow> agent_step m uid = Inr m' \<Longrightarrow> I m'"
      and sc: "\<And>m m'. I m \<Longrightarrow> same_colony m m' \<Longrightarrow> I m'"
      and "I m" "sub_steps n m = Inr m'"
  shows "I m'"
  using assms(3,4)
proof (induction n arbitrary: m)
  case 0
  then show ?case by simp
next
  case (Suc n)
  from Suc.prems(2) obtain m1 where 1: "schedule_step m = Inr m1"
    and 2: "sub_steps n (m1\<lparr>step_count := step_count m1 + 1\<rparr>) = Inr m'"
    by (cases "schedule_step m") auto
  have "I m1"
    by (rule schedule_step_preserves[where I = I, OF _ _ Suc.prems(1) 1]) (blast intro: ag, blast intro: sc)
  then have "I (m1\<lparr>step_count := step_count m1 + 1\<rparr>)"
    by (rule sc) (simp add: same_colony_def)
  from Suc.IH[OF this 2] show ?case .
qed

lemma step_preserves:
  assumes ag: "\<And>m uid m'. I m \<Longrightarrow> agent_step m uid = Inr m' \<Longrightarrow> I m'"
      and sc: "\<And>m m'. I m \<Longrightarrow> same_colony m m' \<Longrightarrow> I m'"
      and "I m" "step m = Inr m'"
  shows "I m'"
proof -
  from assms(4) obtain m0 where s: "sub_steps (nat (simulation_speed m)) m0 = Inr m'"
    and c: "same_colony m m0"
    unfolding step_def Let_def
    by (auto split: sum.splits simp: same_colony_def)
  show ?thesis
    by (rule sub_steps_preserves[where I = I, OF _ _ sc[OF assms(3) c] s]) (blast intro: ag, blast intro: sc)
qed

lemma reachable_invariant:
  assumes init: "\<And>c r g m. AntColonyModel_init c r g = Some (Inr m) \<Longrightarrow> I m"
      and ag: "\<And>m uid m'. I m \<Longrightarrow> agent_step m uid = Inr m' \<Longrightarrow> I m'"
      and sc: "\<And>m m'. I m \<Longrightarrow> same_colony m m' \<Longrightarrow> I m'"
      and "reachable m"
  shows "I m"
  using assms(4)
proof (induction rule: reachable.induct)
  case (init c r g m)
  then show ?case by (rule assms(1))
next
  case (activation m uid m')
  then show ?case using ag by blast
next
  case (tick m m')
  show ?case
    by (rule step_preserves[where I = I, OF _ _ tick.IH tick.hyps(2)]) (blast intro: ag, blast intro: sc)
qed

end
